theory Spec2Isabelle
  imports Main "HOL-Library.Word" "HOL-Library.Sublist"
begin

section \<open>Bytes, byte sources and exceptions\<close>

text \<open>
  The decoder of \<open>xtf_ctypes.py\<close> overlays packed little-endian ctypes structures on
  bytes read from a buffer. A structure is modelled as the bytes it was copied from
  (\<open>from_buffer_copy\<close>), and a field as a read at the field's offset; ctypes hands
  every integer field back as an unbounded Python \<open>int\<close>, here a \<open>nat\<close>.
\<close>

type_synonym byte = "8 word"

definition u8at :: "byte list \<Rightarrow> nat \<Rightarrow> nat" where
  "u8at bs off = unat (bs ! off)"

definition u16at :: "byte list \<Rightarrow> nat \<Rightarrow> nat" where
  "u16at bs off = u8at bs off + 256 * u8at bs (off + 1)"

definition u32at :: "byte list \<Rightarrow> nat \<Rightarrow> nat" where
  "u32at bs off = u16at bs off + 65536 * u16at bs (off + 2)"

definition set_u8 :: "byte list \<Rightarrow> nat \<Rightarrow> nat \<Rightarrow> byte list" where
  "set_u8 bs off v = bs[off := of_nat v]"

definition set_u16 :: "byte list \<Rightarrow> nat \<Rightarrow> nat \<Rightarrow> byte list" where
  "set_u16 bs off v = (bs[off := of_nat (v mod 256)])[off + 1 := of_nat (v div 256)]"

definition set_u32 :: "byte list \<Rightarrow> nat \<Rightarrow> nat \<Rightarrow> byte list" where
  "set_u32 bs off v = set_u16 (set_u16 bs off (v mod 65536)) (off + 2) (v div 65536)"

text \<open>
  The \<open>buffer\<close> argument of every constructor: absent (\<open>None\<close>), a \<open>bytes\<close> object,
  or a stream (\<open>IOBase\<close>; the model is \<open>BytesIO\<close>) of which the bytes from the
  current position on are kept. \<open>truthy\<close> is Python's \<open>if buffer:\<close>: an empty
  \<open>bytes\<close> object is false, a stream object is always true.
\<close>

datatype buffer = NoBuffer | Bytes "byte list" | Stream "byte list"

fun truthy :: "buffer \<Rightarrow> bool" where
  "truthy NoBuffer = False"
| "truthy (Bytes bs) = (bs \<noteq> [])"
| "truthy (Stream s) = True"

text \<open>
  The exceptions the decoder can raise. The code raises \<open>RuntimeError\<close> with a message
  for each condition it checks itself; the message tells the conditions of the
  specification apart. The others are raised by ctypes, numpy, \<open>datetime\<close> and the
  interpreter.
\<close>

datatype message =
    FileShorterThanExpected   \<comment> \<open>'XTF file shorter than expected (end hit while reading ..)'\<close>
  | IncorrectIdentifier       \<comment> \<open>'XTF packet does not start with the correct identifier (0xFACE).'\<close>
  | RequiresFileHeader        \<comment> \<open>'Initialization of XTFPingHeader from buffer requires file_header ..'\<close>
  | ExceedsBytesRemaining     \<comment> \<open>'Number of bytes to read exceeds the number of bytes remaining in packet.'\<close>
  | FileEndedReadingData      \<comment> \<open>'File ended while reading data packets (file corrupt?)'\<close>
  | DataPacketsMissing        \<comment> \<open>'XTF data packets missing (file corrupt?)'\<close>
  | UnknownPingHeaderType     \<comment> \<open>'Unknown XTFPingHeader type encountered.'\<close>

datatype value_error =
    BufferSizeTooSmall        \<comment> \<open>ctypes \<open>from_buffer_copy\<close>: fewer bytes than the structure\<close>
  | NegativeArrayLength       \<comment> \<open>ctypes: \<open>XTFBeamXYZA * n\<close> with \<open>n < 0\<close>\<close>
  | NotMultipleOfElementSize  \<comment> \<open>numpy \<open>frombuffer\<close>\<close>
  | DateOutOfRange            \<comment> \<open>\<open>datetime.date\<close> with a year, month or day out of range\<close>

datatype error =
    RuntimeError message
  | PlainException message
  | ValueError value_error
  | IndexError
  | KeyError
  | AttributeError

abbreviation TruncatedInput :: error where
  "TruncatedInput \<equiv> RuntimeError FileShorterThanExpected"

abbreviation CorruptStream :: error where
  "CorruptStream \<equiv> RuntimeError IncorrectIdentifier"

abbreviation CorruptRecord :: error where
  "CorruptRecord \<equiv> RuntimeError ExceedsBytesRemaining"

text \<open>
  \<open>buffer.read(n)\<close>: at most \<open>n\<close> bytes, fewer at the end of the stream, all the rest
  for a negative \<open>n\<close>; the stream moves on by what was read. A \<open>bytes\<close> object and
  \<open>None\<close> have no \<open>read\<close>.
\<close>

fun read :: "buffer \<Rightarrow> int \<Rightarrow> error + (byte list \<times> buffer)" where
  "read (Stream s) n =
     (if n < 0 then Inr (s, Stream []) else Inr (take (nat n) s, Stream (drop (nat n) s)))"
| "read (Bytes bs) n = Inl AttributeError"
| "read NoBuffer n = Inl AttributeError"

section \<open>XTFBase\<close>

text \<open>
  \<open>XTFBase.__new__(cls, buffer)\<close>, with \<open>ctypes.sizeof(cls)\<close> as the first argument.
  A \<open>bytes\<close> object is wrapped in a \<open>BytesIO\<close> local to the call, so the caller's
  buffer does not move; a stream moves on by the bytes read.
\<close>

definition XTFBase_new :: "nat \<Rightarrow> buffer \<Rightarrow> error + (byte list \<times> buffer)" where
  "XTFBase_new sizeof_cls buffer =
     (if truthy buffer then
        (case read (case buffer of Bytes bs \<Rightarrow> Stream bs | _ \<Rightarrow> buffer) (int sizeof_cls) of
           Inl e \<Rightarrow> Inl e
         | Inr (header_bytes, moved) \<Rightarrow>
             if header_bytes = [] then Inl TruncatedInput
             else if length header_bytes < sizeof_cls then Inl (ValueError BufferSizeTooSmall)
             else Inr (header_bytes, case buffer of Bytes bs \<Rightarrow> buffer | _ \<Rightarrow> moved))
      else Inr (replicate sizeof_cls 0, buffer))"

section \<open>XTFPacketStart\<close>

definition MagicNumber :: "byte list \<Rightarrow> nat" where
  "MagicNumber obj = u16at obj 0"

definition HeaderType :: "byte list \<Rightarrow> nat" where
  "HeaderType obj = u8at obj 2"

definition SubChannelNumber :: "byte list \<Rightarrow> nat" where
  "SubChannelNumber obj = u8at obj 3"

definition NumChansToFollow :: "byte list \<Rightarrow> nat" where
  "NumChansToFollow obj = u16at obj 4"

definition NumBytesThisRecord :: "byte list \<Rightarrow> nat" where
  "NumBytesThisRecord obj = u32at obj 10"

definition sizeof_XTFPacketStart :: nat where
  "sizeof_XTFPacketStart = 14"

text \<open>\<open>XTFPacketStart.__init__\<close>, on the object that \<open>__new__\<close> made.\<close>

definition XTFPacketStart_init :: "byte list \<Rightarrow> buffer \<Rightarrow> error + byte list" where
  "XTFPacketStart_init self buffer =
     (if truthy buffer then
        (if MagicNumber self \<noteq> 0xFACE then Inl CorruptStream else Inr self)
      else Inr (set_u8 (set_u16 self 0 0xFACE) 2 200))"

text \<open>
  The call \<open>XTFPacketStart(buffer=..)\<close>: \<open>__new__\<close>, then \<open>__init__\<close> with the same
  arguments. The result is the object and the buffer as the call leaves it.
\<close>

definition XTFPacketStart_call :: "buffer \<Rightarrow> error + (byte list \<times> buffer)" where
  "XTFPacketStart_call buffer =
     (case XTFBase_new sizeof_XTFPacketStart buffer of
        Inl e \<Rightarrow> Inl e
      | Inr (self, buffer') \<Rightarrow>
          (case XTFPacketStart_init self buffer of
             Inl e \<Rightarrow> Inl e
           | Inr self' \<Rightarrow> Inr (self', buffer')))"

section \<open>XTFChanInfo and XTFFileHeader\<close>

definition sizeof_XTFChanInfo :: nat where
  "sizeof_XTFChanInfo = 128"

definition TypeOfChannel :: "byte list \<Rightarrow> nat" where
  "TypeOfChannel x = u8at x 0"

definition BytesPerSample :: "byte list \<Rightarrow> nat" where
  "BytesPerSample x = u16at x 6"

definition Reserved :: "byte list \<Rightarrow> nat" where
  "Reserved x = u32at x 8"

text \<open>\<open>XTFChannelType\<close>: an \<open>AutoIntEnum\<close>, numbered from 0 in the order declared.\<close>

definition subbottom :: nat where "subbottom = 0"
definition port :: nat where "port = 1"
definition stbd :: nat where "stbd = 2"
definition bathy :: nat where "bathy = 3"

definition sizeof_XTFFileHeader :: nat where
  "sizeof_XTFFileHeader = 1024"

definition NumberOfSonarChannels :: "byte list \<Rightarrow> nat" where
  "NumberOfSonarChannels self = u16at self 166"

definition NumberOfBathymetryChannels :: "byte list \<Rightarrow> nat" where
  "NumberOfBathymetryChannels self = u16at self 168"

definition NumberOfSnippetChannels :: "byte list \<Rightarrow> nat" where
  "NumberOfSnippetChannels self = u8at self 170"

definition NumberOfForwardLookArrays :: "byte list \<Rightarrow> nat" where
  "NumberOfForwardLookArrays self = u8at self 171"

definition NumberOfEchoStrengthChannels :: "byte list \<Rightarrow> nat" where
  "NumberOfEchoStrengthChannels self = u16at self 172"

definition NumberOfInterferometryChannels :: "byte list \<Rightarrow> nat" where
  "NumberOfInterferometryChannels self = u8at self 174"

text \<open>
  \<open>self.ChanInfo[i]\<close>: the field is \<open>XTFChanInfo * 6\<close> at offset 256, and a ctypes
  array raises \<open>IndexError\<close> for an index that is not below its length.
\<close>

definition ChanInfo :: "byte list \<Rightarrow> nat \<Rightarrow> error + byte list" where
  "ChanInfo self i =
     (if i < 6 then Inr (take sizeof_XTFChanInfo (drop (256 + sizeof_XTFChanInfo * i) self))
      else Inl IndexError)"

definition sonar_chan_types :: "nat list" where
  "sonar_chan_types = [port, stbd, subbottom]"

definition channel_count :: "byte list \<Rightarrow> nat" where
  "channel_count self =
     NumberOfSonarChannels self
     + NumberOfBathymetryChannels self
     + NumberOfSnippetChannels self
     + NumberOfForwardLookArrays self
     + NumberOfEchoStrengthChannels self
     + NumberOfInterferometryChannels self"

text \<open>A list comprehension \<open>[f(i) for i in ..]\<close> whose element expression can raise.\<close>

fun comprehension :: "(nat \<Rightarrow> error + 'a) \<Rightarrow> nat list \<Rightarrow> error + 'a list" where
  "comprehension f [] = Inr []"
| "comprehension f (i # is) =
     (case f i of
        Inl e \<Rightarrow> Inl e
      | Inr x \<Rightarrow> (case comprehension f is of Inl e \<Rightarrow> Inl e | Inr xs \<Rightarrow> Inr (x # xs)))"

text \<open>
  A file header object: the structure's bytes and the two Python attributes that
  \<open>__init__\<close> sets only when it is given a buffer.
\<close>

record XTFFileHeader =
  fh_bytes :: "byte list"
  sonar_info :: "byte list list option"
  bathy_info :: "byte list list option"

definition XTFFileHeader_init :: "byte list \<Rightarrow> buffer \<Rightarrow> error + XTFFileHeader" where
  "XTFFileHeader_init self buffer =
     (if truthy buffer then
        (case comprehension (ChanInfo self) [0..<channel_count self] of
           Inl e \<Rightarrow> Inl e
         | Inr chan_info \<Rightarrow>
             Inr \<lparr>fh_bytes = self,
                  sonar_info = Some (filter (\<lambda>x. TypeOfChannel x \<in> set sonar_chan_types) chan_info),
                  bathy_info = Some (filter (\<lambda>x. TypeOfChannel x = bathy) chan_info)\<rparr>)
      else
        Inr \<lparr>fh_bytes =
               fold (\<lambda>(off, v) bs. set_u8 bs off v)
                 [(2, 0x70), (3, 0x79), (4, 0x78), (5, 0x74), (6, 0x66), (10, 0x32), (11, 0x32), (12, 0x33)]
                 (fold (\<lambda>i bs. set_u32 bs (256 + sizeof_XTFChanInfo * i + 8) 1024) [0..<6]
                    (set_u8 (set_u8 self 0 0x7B) 1 1)),
             sonar_info = None,
             bathy_info = None\<rparr>)"

definition XTFFileHeader_call :: "buffer \<Rightarrow> error + (XTFFileHeader \<times> buffer)" where
  "XTFFileHeader_call buffer =
     (case XTFBase_new sizeof_XTFFileHeader buffer of
        Inl e \<Rightarrow> Inl e
      | Inr (self, buffer') \<Rightarrow>
          (case XTFFileHeader_init self buffer of
             Inl e \<Rightarrow> Inl e
           | Inr file_header \<Rightarrow> Inr (file_header, buffer')))"

section \<open>XTFRawSerialHeader\<close>

definition sizeof_XTFRawSerialHeader :: nat where
  "sizeof_XTFRawSerialHeader = 30"

definition StringSize :: "byte list \<Rightarrow> nat" where
  "StringSize self = u16at self 28"

text \<open>
  \<open>x.value\<close> on a Python \<open>int\<close>. A ctypes structure returns a field of a simple
  type such as \<open>c_uint16\<close> as a native \<open>int\<close>, which has no attribute \<open>value\<close>.
\<close>

definition int_value :: "nat \<Rightarrow> error + nat" where
  "int_value x = Inl AttributeError"

record XTFRawSerialHeader =
  rs_bytes :: "byte list"
  RawAsciiData :: "byte list"

definition XTFRawSerialHeader_init ::
  "byte list \<Rightarrow> buffer \<Rightarrow> buffer \<Rightarrow> error + (XTFRawSerialHeader \<times> buffer)" where
  "XTFRawSerialHeader_init self buffer buffer' =
     (case XTFPacketStart_init self buffer of
        Inl e \<Rightarrow> Inl e
      | Inr self' \<Rightarrow>
          if truthy buffer then
            (case int_value (StringSize self') of
               Inl e \<Rightarrow> Inl e
             | Inr n \<Rightarrow>
                 (case read buffer' (int (1 * n)) of
                    Inl e \<Rightarrow> Inl e
                  | Inr (ascii, buffer'') \<Rightarrow>
                      Inr (\<lparr>rs_bytes = self', RawAsciiData = ascii\<rparr>, buffer'')))
          else Inr (\<lparr>rs_bytes = set_u8 self' 2 6, RawAsciiData = []\<rparr>, buffer'))"

text \<open>
  \<open>buffer'\<close> is the caller's buffer after \<open>__new__\<close>: the same stream object, moved
  on by the 30 bytes of the fixed part.
\<close>

definition XTFRawSerialHeader_call :: "buffer \<Rightarrow> error + (XTFRawSerialHeader \<times> buffer)" where
  "XTFRawSerialHeader_call buffer =
     (case XTFBase_new sizeof_XTFRawSerialHeader buffer of
        Inl e \<Rightarrow> Inl e
      | Inr (self, buffer') \<Rightarrow> XTFRawSerialHeader_init self buffer buffer')"

section \<open>XTFPingChanHeader and XTFPingHeader\<close>

definition sizeof_XTFPingChanHeader :: nat where
  "sizeof_XTFPingChanHeader = 64"

definition sizeof_XTFPingHeader :: nat where
  "sizeof_XTFPingHeader = 256"

definition sizeof_XTFBeamXYZA :: nat where
  "sizeof_XTFBeamXYZA = 31"

definition NumSamples :: "byte list \<Rightarrow> nat" where
  "NumSamples p_chan = u32at p_chan 42"

text \<open>\<open>XTFPingChanHeader(buffer=buffer)\<close>: the class adds nothing to \<open>XTFBase\<close>.\<close>

definition XTFPingChanHeader_call :: "buffer \<Rightarrow> error + (byte list \<times> buffer)" where
  "XTFPingChanHeader_call buffer = XTFBase_new sizeof_XTFPingChanHeader buffer"

text \<open>
  \<open>xtf_dtype\<close> maps the number of bytes of a sample to the unsigned numpy type of that
  width, here the width itself; a missing key raises \<open>KeyError\<close>.
\<close>

definition xtf_dtype :: "nat \<Rightarrow> nat option" where
  "xtf_dtype k = (if k \<in> {1, 2, 4, 8} then Some k else None)"

definition le_uint :: "byte list \<Rightarrow> nat" where
  "le_uint bs = foldr (\<lambda>b acc. unat b + 256 * acc) bs 0"

text \<open>
  \<open>np.frombuffer(samples, dtype)\<close> for an unsigned little-endian type of \<open>itemsize\<close>
  bytes: the buffer must hold a whole number of elements.
\<close>

definition frombuffer :: "byte list \<Rightarrow> nat \<Rightarrow> error + nat list" where
  "frombuffer samples itemsize =
     (if length samples mod itemsize \<noteq> 0 then Inl (ValueError NotMultipleOfElementSize)
      else Inr (map (\<lambda>k. le_uint (take itemsize (drop (k * itemsize) samples)))
                  [0..<length samples div itemsize]))"

text \<open>\<open>file_header.sonar_info[i]\<close>.\<close>

definition sonar_info_getitem :: "XTFFileHeader \<Rightarrow> nat \<Rightarrow> error + byte list" where
  "sonar_info_getitem file_header i =
     (case sonar_info file_header of
        None \<Rightarrow> Inl AttributeError
      | Some chans \<Rightarrow> if i < length chans then Inr (chans ! i) else Inl IndexError)"

text \<open>
  The local \<open>n_samples\<close> of the channel loop. The conditional expression reads
  \<open>sonar_info[i]\<close> only when \<open>NumSamples\<close> is 0.
\<close>

definition n_samples :: "XTFFileHeader \<Rightarrow> nat \<Rightarrow> byte list \<Rightarrow> error + nat" where
  "n_samples file_header i p_chan =
     (if NumSamples p_chan > 0 then Inr (NumSamples p_chan)
      else (case sonar_info_getitem file_header i of
              Inl e \<Rightarrow> Inl e
            | Inr chan \<Rightarrow> Inr (Reserved chan)))"


text \<open>The local \<open>n_bytes_remaining\<close>; Python integers do not wrap, so it can be negative.\<close>

definition n_bytes_remaining :: "byte list \<Rightarrow> int" where
  "n_bytes_remaining p_header =
     int (NumBytesThisRecord p_header) - int sizeof_XTFPingHeader - int sizeof_XTFPingChanHeader"

text \<open>
  One pass of the body of \<open>for i in range(0, p_header.NumChansToFollow)\<close>: the channel
  header, the samples and the buffer after the pass.
\<close>

definition sonar_channel ::
  "XTFFileHeader \<Rightarrow> byte list \<Rightarrow> nat \<Rightarrow> buffer \<Rightarrow> error + (byte list \<times> nat list \<times> buffer)" where
  "sonar_channel file_header p_header i buffer =
     (case XTFPingChanHeader_call buffer of
        Inl e \<Rightarrow> Inl e
      | Inr (p_chan, buffer1) \<Rightarrow>
     (case n_samples file_header i p_chan of
        Inl e \<Rightarrow> Inl e
      | Inr n \<Rightarrow>
     (case sonar_info_getitem file_header i of
        Inl e \<Rightarrow> Inl e
      | Inr chan \<Rightarrow>
          if int (n * BytesPerSample chan) > n_bytes_remaining p_header then Inl CorruptRecord
          else
     (case read buffer1 (int (n * BytesPerSample chan)) of
        Inl e \<Rightarrow> Inl e
      | Inr (samples, buffer2) \<Rightarrow>
          if samples = [] then Inl (RuntimeError FileEndedReadingData)
          else
     (case xtf_dtype (BytesPerSample chan) of
        None \<Rightarrow> Inl KeyError
      | Some itemsize \<Rightarrow>
     (case frombuffer samples itemsize of
        Inl e \<Rightarrow> Inl e
      | Inr arr \<Rightarrow> Inr (p_chan, arr, buffer2)))))))"

text \<open>
  The loop over the channels \<open>i, i + 1, .., i + k - 1\<close>, appending to
  \<open>ping_chan_headers\<close> and \<open>data\<close>.
\<close>

fun sonar_channels ::
  "XTFFileHeader \<Rightarrow> byte list \<Rightarrow> nat \<Rightarrow> nat \<Rightarrow> buffer \<Rightarrow> byte list list \<Rightarrow> nat list list
     \<Rightarrow> error + (byte list list \<times> nat list list \<times> buffer)" where
  "sonar_channels file_header p_header i 0 buffer hs ds = Inr (hs, ds, buffer)"
| "sonar_channels file_header p_header i (Suc k) buffer hs ds =
     (case sonar_channel file_header p_header i buffer of
        Inl e \<Rightarrow> Inl e
      | Inr (p_chan, samples, buffer') \<Rightarrow>
          sonar_channels file_header p_header (Suc i) k buffer' (hs @ [p_chan]) (ds @ [samples]))"

text \<open>\<open>XTFHeaderType\<close>, the members the ping decoder names.\<close>

definition sonar :: nat where "sonar = 0"
definition bathy_hdr :: nat where "bathy_hdr = 2"
definition bathy_xyza :: nat where "bathy_xyza = 17"
definition multibeam_raw_beam_angle :: nat where "multibeam_raw_beam_angle = 74"

definition bathy_header_types :: "nat list" where
  "bathy_header_types = [bathy_xyza, bathy_hdr, multibeam_raw_beam_angle]"

text \<open>
  \<open>p_header.data\<close>: a list of numpy arrays, or for processed bathymetry a ctypes array
  of \<open>XTFBeamXYZA\<close> structures.
\<close>

datatype ping_data = SampleArrays "nat list list" | BeamArray "byte list list"

record XTFPingHeader =
  ph_bytes :: "byte list"
  ping_chan_headers :: "byte list list"
  data :: ping_data

text \<open>
  \<open>(XTFBeamXYZA * num_xyza).from_buffer_copy(samples)\<close>: a negative length is refused,
  as is a buffer shorter than the array; bytes beyond the array are left out.
\<close>

definition xyza_array :: "int \<Rightarrow> byte list \<Rightarrow> error + byte list list" where
  "xyza_array num_xyza samples =
     (if num_xyza < 0 then Inl (ValueError NegativeArrayLength)
      else if length samples < sizeof_XTFBeamXYZA * nat num_xyza
        then Inl (ValueError BufferSizeTooSmall)
      else Inr (map (\<lambda>k. take sizeof_XTFBeamXYZA (drop (sizeof_XTFBeamXYZA * k) samples))
                  [0..<nat num_xyza]))"

definition XTFPingHeader_new ::
  "buffer \<Rightarrow> XTFFileHeader option \<Rightarrow> error + (XTFPingHeader \<times> buffer)" where
  "XTFPingHeader_new buffer file_header =
     (case XTFBase_new sizeof_XTFPingHeader buffer of
        Inl e \<Rightarrow> Inl e
      | Inr (p_header, buffer1) \<Rightarrow>
          if truthy buffer then
            (case file_header of
               None \<Rightarrow> Inl (RuntimeError RequiresFileHeader)
             | Some fh \<Rightarrow>
                 if HeaderType p_header = sonar then
                   (case sonar_channels fh p_header 0 (NumChansToFollow p_header) buffer1 [] [] of
                      Inl e \<Rightarrow> Inl e
                    | Inr (hs, ds, buffer2) \<Rightarrow>
                        Inr (\<lparr>ph_bytes = p_header, ping_chan_headers = hs,
                              data = SampleArrays ds\<rparr>, buffer2))
                 else if HeaderType p_header \<in> set bathy_header_types then
                   (case read buffer1 (int (NumBytesThisRecord p_header) - int sizeof_XTFPingHeader) of
                      Inl e \<Rightarrow> Inl e
                    | Inr (samples, buffer2) \<Rightarrow>
                        if samples = [] then Inl (PlainException DataPacketsMissing)
                        else if HeaderType p_header = bathy_xyza then
                          (case xyza_array
                                  ((int (NumBytesThisRecord p_header) - int sizeof_XTFPingHeader)
                                     div int sizeof_XTFBeamXYZA) samples of
                             Inl e \<Rightarrow> Inl e
                           | Inr beams \<Rightarrow>
                               Inr (\<lparr>ph_bytes = p_header, ping_chan_headers = [],
                                     data = BeamArray beams\<rparr>, buffer2))
                        else
                          Inr (\<lparr>ph_bytes = p_header, ping_chan_headers = [],
                                data = SampleArrays [map unat samples]\<rparr>, buffer2))
                 else Inl (RuntimeError UnknownPingHeaderType))
          else
            Inr (\<lparr>ph_bytes = p_header, ping_chan_headers = [], data = SampleArrays []\<rparr>,
                 buffer1))"

text \<open>
  \<open>XTFPingHeader.__init__\<close> runs after \<open>__new__\<close> has read the whole record: the magic
  number is checked by \<open>XTFPacketStart.__init__\<close> only then.
\<close>

definition XTFPingHeader_init :: "XTFPingHeader \<Rightarrow> buffer \<Rightarrow> error + XTFPingHeader" where
  "XTFPingHeader_init self buffer =
     (case XTFPacketStart_init (ph_bytes self) buffer of
        Inl e \<Rightarrow> Inl e
      | Inr bs \<Rightarrow>
          if \<not> truthy buffer then Inr (self\<lparr>ph_bytes := set_u8 bs 2 sonar\<rparr>)
          else Inr (self\<lparr>ph_bytes := bs\<rparr>))"

definition XTFPingHeader_call ::
  "buffer \<Rightarrow> XTFFileHeader option \<Rightarrow> error + (XTFPingHeader \<times> buffer)" where
  "XTFPingHeader_call buffer file_header =
     (case XTFPingHeader_new buffer file_header of
        Inl e \<Rightarrow> Inl e
      | Inr (p_header, buffer') \<Rightarrow>
          (case XTFPingHeader_init p_header buffer of
             Inl e \<Rightarrow> Inl e
           | Inr self \<Rightarrow> Inr (self, buffer')))"

text \<open>The first \<open>n\<close> descriptor slots of the file header, in slot order.\<close>

definition slots :: "byte list \<Rightarrow> nat \<Rightarrow> byte list list" where
  "slots self n =
     map (\<lambda>i. take sizeof_XTFChanInfo (drop (256 + sizeof_XTFChanInfo * i) self)) [0..<n]"

text \<open>
  A file header for the examples: two sonar channels and one bathymetry channel are
  counted, and the first three descriptor slots have the channel types 1 (port),
  9 (no member of \<open>XTFChannelType\<close>) and 3 (bathy).
\<close>

definition header_three_channels :: "byte list" where
  "header_three_channels =
     replicate 166 0 @ [2, 0, 1, 0] @ replicate 86 0
     @ (1 # replicate 127 0) @ (9 # replicate 127 0) @ (3 # replicate 127 0)
     @ replicate 384 0"

text \<open>
  Records for the examples, built from the values of the fields the decoder reads (all
  other bytes zero): a channel descriptor from its channel type, bytes per sample and
  \<open>Reserved\<close> field, a ping header from its header type, \<open>NumChansToFollow\<close> and
  \<open>NumBytesThisRecord\<close>, a ping channel header from \<open>NumSamples\<close>, and a file
  header object from its sonar channel view.
\<close>

definition chan_info_bytes :: "nat \<Rightarrow> nat \<Rightarrow> nat \<Rightarrow> byte list" where
  "chan_info_bytes ty bps res =
     [of_nat ty, 0, 0, 0, 0, 0, of_nat bps, 0, of_nat res] @ replicate 119 0"

definition ping_header_bytes :: "nat \<Rightarrow> nat \<Rightarrow> nat \<Rightarrow> byte list" where
  "ping_header_bytes ty k n =
     [0xCE, 0xFA, of_nat ty, 0, of_nat k, 0, 0, 0, 0, 0, of_nat (n mod 256), of_nat (n div 256), 0, 0]
     @ replicate 242 0"

definition chan_header_bytes :: "nat \<Rightarrow> byte list" where
  "chan_header_bytes ns = replicate 42 0 @ [of_nat ns, 0, 0, 0] @ replicate 18 0"

definition file_header_with :: "byte list list \<Rightarrow> XTFFileHeader" where
  "file_header_with chans =
     \<lparr>fh_bytes = replicate 1024 0, sonar_info = Some chans, bathy_info = Some []\<rparr>"

text \<open>
  Three sonar channel descriptors that differ in bytes per sample and legacy sample
  count: 2 bytes and 3 samples, 2 bytes and 2 samples, 4 bytes and 3 samples.
\<close>

definition three_descriptors :: "byte list list" where
  "three_descriptors = [chan_info_bytes 2 2 3, chan_info_bytes 0 2 2, chan_info_bytes 2 4 3]"

section \<open>XTFPacket.get_time\<close>

text \<open>
  \<open>np.datetime64\<close>: a count of units since 1970-01-01T00:00. Adding a
  \<open>np.timedelta64\<close> gives a value in the finer of the two units; a count of years is
  converted to days by the proleptic Gregorian calendar, every other unit by its fixed
  factor.
\<close>

datatype time_unit = Unit_Y | Unit_D | Unit_h | Unit_m | Unit_s | Unit_ms | Unit_us

record datetime64 =
  dt_count :: int
  dt_unit :: time_unit

fun rank :: "time_unit \<Rightarrow> nat" where
  "rank Unit_Y = 0"
| "rank Unit_D = 1"
| "rank Unit_h = 2"
| "rank Unit_m = 3"
| "rank Unit_s = 4"
| "rank Unit_ms = 5"
| "rank Unit_us = 6"

fun per_day :: "time_unit \<Rightarrow> int" where
  "per_day Unit_Y = 1"
| "per_day Unit_D = 1"
| "per_day Unit_h = 24"
| "per_day Unit_m = 1440"
| "per_day Unit_s = 86400"
| "per_day Unit_ms = 86400000"
| "per_day Unit_us = 86400000000"

text \<open>
  The days before 1 January of a year, counted from 1 January of year 1
  (\<open>_days_before_year\<close> of Python's \<open>datetime\<close>); numpy counts the same days from
  1970.
\<close>

definition days_before_year :: "int \<Rightarrow> int" where
  "days_before_year year =
     (let y = year - 1 in y * 365 + y div 4 - y div 100 + y div 400)"

definition year_start_days :: "int \<Rightarrow> int" where
  "year_start_days year = days_before_year year - days_before_year 1970"

definition to_unit :: "time_unit \<Rightarrow> datetime64 \<Rightarrow> int" where
  "to_unit v d =
     (if dt_unit d = Unit_Y then
        (if v = Unit_Y then dt_count d else year_start_days (1970 + dt_count d) * per_day v)
      else dt_count d * (per_day v div per_day (dt_unit d)))"

definition datetime64_add :: "datetime64 \<Rightarrow> int \<times> time_unit \<Rightarrow> datetime64" where
  "datetime64_add d td =
     (let v = (if rank (dt_unit d) \<ge> rank (snd td) then dt_unit d else snd td)
      in \<lparr>dt_count = to_unit v d + fst td * (per_day v div per_day (snd td)), dt_unit = v\<rparr>)"

text \<open>
  \<open>datetime.date(year, month, day)\<close>, as far as the code uses it: the constructor
  raises \<open>ValueError\<close> for a date that does not exist, and the difference of two dates
  is the difference of their ordinals.
\<close>

definition is_leap :: "nat \<Rightarrow> bool" where
  "is_leap year = (year mod 4 = 0 \<and> (year mod 100 \<noteq> 0 \<or> year mod 400 = 0))"

definition days_in_month :: "nat \<Rightarrow> nat \<Rightarrow> nat" where
  "days_in_month year month =
     (if month = 2 \<and> is_leap year then 29
      else [0, 31, 28, 31, 30, 31, 30, 31, 31, 30, 31, 30, 31] ! month)"

definition days_before_month :: "nat \<Rightarrow> nat \<Rightarrow> nat" where
  "days_before_month year month =
     [0, 0, 31, 59, 90, 120, 151, 181, 212, 243, 273, 304, 334] ! month
     + (if month > 2 \<and> is_leap year then 1 else 0)"

definition date :: "nat \<Rightarrow> nat \<Rightarrow> nat \<Rightarrow> error + int" where
  "date year month day =
     (if 1 \<le> year \<and> year \<le> 9999 \<and> 1 \<le> month \<and> month \<le> 12
         \<and> 1 \<le> day \<and> day \<le> days_in_month year month
      then Inr (days_before_year (int year) + int (days_before_month year month) + int day)
      else Inl (ValueError DateOutOfRange))"

text \<open>
  The attributes of a packet that \<open>get_time\<close> looks at. A field the packet's class
  does not declare is \<open>None\<close>: \<open>hasattr\<close> is false for it, and reading it raises
  \<open>AttributeError\<close>.
\<close>

record time_fields =
  SourceEpoch :: "nat option"
  EpochMicroseconds :: "nat option"
  Year :: "nat option"
  Month :: "nat option"
  Day :: "nat option"
  Hour :: "nat option"
  Minute :: "nat option"
  Second :: "nat option"
  HSeconds :: "nat option"
  Millisecond :: "nat option"
  Microsecond :: "nat option"

definition attr :: "nat option \<Rightarrow> error + nat" where
  "attr field = (case field of None \<Rightarrow> Inl AttributeError | Some v \<Rightarrow> Inr v)"

definition hasattr_and_nonzero :: "nat option \<Rightarrow> bool" where
  "hasattr_and_nonzero field = (case field of None \<Rightarrow> False | Some v \<Rightarrow> v \<noteq> 0)"

definition bind_err :: "error + 'a \<Rightarrow> ('a \<Rightarrow> error + 'b) \<Rightarrow> error + 'b" where
  "bind_err r f = (case r of Inl e \<Rightarrow> Inl e | Inr x \<Rightarrow> f x)"

definition get_time :: "time_fields \<Rightarrow> error + datetime64" where
  "get_time self =
     (if hasattr_and_nonzero (SourceEpoch self) then
        bind_err (attr (SourceEpoch self)) (\<lambda>epoch.
          let p_time = \<lparr>dt_count = int epoch, dt_unit = Unit_s\<rparr> in
          if hasattr_and_nonzero (EpochMicroseconds self) then
            bind_err (attr (EpochMicroseconds self)) (\<lambda>micro.
              Inr (datetime64_add p_time (int micro, Unit_us)))
          else Inr p_time)
      else
        bind_err (attr (Year self)) (\<lambda>year.
        bind_err (attr (Month self)) (\<lambda>month.
        bind_err (attr (Day self)) (\<lambda>day.
        bind_err (date year month day) (\<lambda>d.
        bind_err (date year 1 1) (\<lambda>d1.
        bind_err (attr (Hour self)) (\<lambda>hour.
        bind_err (attr (Minute self)) (\<lambda>minute.
        bind_err (attr (Second self)) (\<lambda>second.
          let days = d - d1;
              p_time =
                datetime64_add
                  (datetime64_add
                     (datetime64_add
                        (datetime64_add \<lparr>dt_count = int year - 1970, dt_unit = Unit_Y\<rparr>
                           (days, Unit_D))
                        (int hour, Unit_h))
                     (int minute, Unit_m))
                  (int second, Unit_s)
          in case HSeconds self of
               Some hseconds \<Rightarrow> Inr (datetime64_add p_time (int (hseconds * 10), Unit_ms))
             | None \<Rightarrow>
                 let p_time1 = (case Millisecond self of
                                  Some ms \<Rightarrow> datetime64_add p_time (int ms, Unit_ms)
                                | None \<Rightarrow> p_time);
                     p_time2 = (case Microsecond self of
                                  Some us \<Rightarrow> datetime64_add p_time1 (int us, Unit_us)
                                | None \<Rightarrow> p_time1)
                 in Inr p_time2)))))))))"

text \<open>
  The packet classes of \<open>XTFPacketClasses\<close> (without the prefix \<open>XTF\<close>) and, for a
  packet of each class, the fields \<open>get_time\<close> can see, read at their offsets in the
  packed structure.
\<close>

datatype packet_class =
    AttitudeData | NotesHeader | RawSerialHeader | PingHeader | PosRawNavigation
  | QPSSingleBeam | RawCustomHeader | HeaderNavigation | HeaderGyro | HighSpeedSensor

definition calendar_at :: "byte list \<Rightarrow> nat \<Rightarrow> time_fields" where
  "calendar_at raw off =
     \<lparr>SourceEpoch = None, EpochMicroseconds = None,
      Year = Some (u16at raw off), Month = Some (u8at raw (off + 2)),
      Day = Some (u8at raw (off + 3)), Hour = Some (u8at raw (off + 4)),
      Minute = Some (u8at raw (off + 5)), Second = Some (u8at raw (off + 6)),
      HSeconds = None, Millisecond = None, Microsecond = None\<rparr>"

fun fields :: "packet_class \<Rightarrow> byte list \<Rightarrow> time_fields" where
  "fields AttitudeData raw =
     (calendar_at raw 54)\<lparr>EpochMicroseconds := Some (u32at raw 22),
        SourceEpoch := Some (u32at raw 26), Millisecond := Some (u16at raw 61)\<rparr>"
| "fields NotesHeader raw = calendar_at raw 14"
| "fields RawSerialHeader raw = (calendar_at raw 14)\<lparr>HSeconds := Some (u8at raw 21)\<rparr>"
| "fields PingHeader raw = (calendar_at raw 14)\<lparr>HSeconds := Some (u8at raw 21)\<rparr>"
| "fields PosRawNavigation raw = (calendar_at raw 14)\<lparr>Microsecond := Some (u16at raw 21)\<rparr>"
| "fields QPSSingleBeam raw = (calendar_at raw 38)\<lparr>Millisecond := Some (u16at raw 45)\<rparr>"
| "fields RawCustomHeader raw = (calendar_at raw 38)\<lparr>Millisecond := Some (u16at raw 45)\<rparr>"
| "fields HeaderNavigation raw =
     (calendar_at raw 14)\<lparr>Microsecond := Some (u32at raw 21), SourceEpoch := Some (u32at raw 25)\<rparr>"
| "fields HeaderGyro raw =
     (calendar_at raw 14)\<lparr>Microsecond := Some (u32at raw 21), SourceEpoch := Some (u32at raw 25)\<rparr>"
| "fields HighSpeedSensor raw = (calendar_at raw 14)\<lparr>HSeconds := Some (u8at raw 21)\<rparr>"

text \<open>
  The calendar time of the specification: the days from 1970-01-01 to a date, counting
  every year and month before it at its Gregorian length, then hours, minutes and
  seconds, and the sub-second part from the first field present among hundredths,
  milliseconds and microseconds.
\<close>

definition leap_year :: "nat \<Rightarrow> bool" where
  "leap_year y = ((y mod 4 = 0 \<and> y mod 100 \<noteq> 0) \<or> y mod 400 = 0)"

definition year_length :: "nat \<Rightarrow> nat" where
  "year_length y = (if leap_year y then 366 else 365)"

definition month_length :: "nat \<Rightarrow> nat \<Rightarrow> nat" where
  "month_length y mo =
     (if mo = 2 then (if leap_year y then 29 else 28)
      else if mo \<in> {4, 6, 9, 11} then 30 else 31)"

definition days_since_year_one :: "nat \<Rightarrow> nat \<Rightarrow> nat \<Rightarrow> nat" where
  "days_since_year_one y mo d =
     sum_list (map year_length [1..<y]) + sum_list (map (month_length y) [1..<mo]) + (d - 1)"

definition calendar_seconds :: "nat \<Rightarrow> nat \<Rightarrow> nat \<Rightarrow> nat \<Rightarrow> nat \<Rightarrow> nat \<Rightarrow> int" where
  "calendar_seconds y mo d hh mi ss =
     (int (days_since_year_one y mo d) - int (days_since_year_one 1970 1 1)) * 86400
     + int hh * 3600 + int mi * 60 + int ss"

definition calendar_time ::
  "int \<Rightarrow> nat option \<Rightarrow> nat option \<Rightarrow> nat option \<Rightarrow> datetime64" where
  "calendar_time seconds hseconds millisecond microsecond =
     (case hseconds of
        Some v \<Rightarrow> \<lparr>dt_count = seconds * 1000 + int v * 10, dt_unit = Unit_ms\<rparr>
      | None \<Rightarrow>
          (case millisecond of
             Some v \<Rightarrow> \<lparr>dt_count = seconds * 1000 + int v, dt_unit = Unit_ms\<rparr>
           | None \<Rightarrow>
               (case microsecond of
                  Some v \<Rightarrow> \<lparr>dt_count = seconds * 1000000 + int v, dt_unit = Unit_us\<rparr>
                | None \<Rightarrow> \<lparr>dt_count = seconds, dt_unit = Unit_s\<rparr>)))"

section \<open>Verified properties\<close>

subsection \<open>Auxiliary facts\<close>

lemma comprehension_ok:
  "(\<And>i. i \<in> set js \<Longrightarrow> f i = Inr (g i)) \<Longrightarrow> comprehension f js = Inr (map g js)"
  by (induction js) simp_all

lemma comprehension_Inr:
  "comprehension f js = Inr xs \<Longrightarrow> j \<in> set js \<Longrightarrow> \<exists>x. f j = Inr x"
  by (induction js arbitrary: xs) (auto split: sum.splits)

lemma comprehension_Inl:
  "comprehension f js = Inl e \<Longrightarrow> \<exists>j\<in>set js. f j = Inl e"
  by (induction js) (auto split: sum.splits)

lemma chan_info_ok:
  "n \<le> 6 \<Longrightarrow> comprehension (ChanInfo self) [0..<n] = Inr (slots self n)"
  unfolding slots_def by (rule comprehension_ok) (simp add: ChanInfo_def)

lemma chan_info_fail:
  assumes "6 < n"
  shows "comprehension (ChanInfo self) [0..<n] = Inl IndexError"
proof (cases "comprehension (ChanInfo self) [0..<n]")
  case (Inl e)
  then obtain j where "ChanInfo self j = Inl e"
    using comprehension_Inl by blast
  then have "e = IndexError"
    by (simp add: ChanInfo_def split: if_splits)
  with Inl show ?thesis by simp
next
  case (Inr xs)
  have "6 \<in> set [0..<n]" using assms by simp
  from comprehension_Inr [OF Inr this] show ?thesis
    by (simp add: ChanInfo_def)
qed

lemma XTFBase_new_stream:
  "XTFBase_new n (Stream s) =
     (if s = [] \<or> n = 0 then Inl TruncatedInput
      else if length s < n then Inl (ValueError BufferSizeTooSmall)
      else Inr (take n s, Stream (drop n s)))"
  by (auto simp: XTFBase_new_def)

subsection \<open>The packet preamble\<close>

text \<open>
  Claim C6. A packet preamble is decoded by \<open>XTFPacketStart(buffer)\<close>. When the stream
  holds the 14 bytes of the preamble, the call raises the \<open>RuntimeError\<close> of the
  identifier check (the CorruptStream condition) if the 16-bit magic field is not
  \<open>0xFACE\<close>, and nothing is returned from which decoding could go on; if the magic is
  \<open>0xFACE\<close> the check passes and the call returns the preamble with the stream moved
  past it.
\<close>

theorem packet_start_magic:
  assumes "sizeof_XTFPacketStart \<le> length s"
  shows "XTFPacketStart_call (Stream s) =
           (if MagicNumber (take sizeof_XTFPacketStart s) \<noteq> 0xFACE then Inl CorruptStream
            else Inr (take sizeof_XTFPacketStart s, Stream (drop sizeof_XTFPacketStart s)))"
  using assms
  by (auto simp: XTFPacketStart_call_def XTFBase_new_stream XTFPacketStart_init_def
      sizeof_XTFPacketStart_def)

theorem packet_start_magic_witness:
  "XTFPacketStart_call (Stream [0xCE, 0xFA, 0, 0, 0, 0, 0, 0, 0, 0, 0, 0, 0, 0, 7]) =
     Inr ([0xCE, 0xFA, 0, 0, 0, 0, 0, 0, 0, 0, 0, 0, 0, 0], Stream [7])
   \<and> XTFPacketStart_call (Stream [0xCE, 0xFB, 0, 0, 0, 0, 0, 0, 0, 0, 0, 0, 0, 0, 7]) =
     Inl CorruptStream"
  using packet_start_magic [of "[0xCE, 0xFA, 0, 0, 0, 0, 0, 0, 0, 0, 0, 0, 0, 0, 7]"]
    packet_start_magic [of "[0xCE, 0xFB, 0, 0, 0, 0, 0, 0, 0, 0, 0, 0, 0, 0, 7]"]
  by (simp add: sizeof_XTFPacketStart_def MagicNumber_def u16at_def u8at_def)

subsection \<open>Short reads\<close>

text \<open>
  Claim C5, as the code has it. Every fixed-size structure is read by
  \<open>XTFBase.__new__\<close>, which raises the \<open>RuntimeError\<close> of the TruncatedInput condition
  only when the read returned no byte at all. The claim fails for a stream that holds one
  byte: the preamble decode raises, but the exception is the \<open>ValueError\<close> of
  \<open>from_buffer_copy\<close>, not TruncatedInput.
\<close>

theorem truncated_input_counterexample:
  "length [0xCE :: byte] < sizeof_XTFPacketStart
   \<and> XTFPacketStart_call (Stream [0xCE]) \<noteq> Inl TruncatedInput"
  by (simp add: XTFPacketStart_call_def XTFBase_new_stream sizeof_XTFPacketStart_def)

text \<open>
  Claim C5, amended. Every fixed-size structure (\<open>XTFBase.__new__\<close> for a class of any
  size, and with it the file header, the packet preamble, the ping header and the ping
  channel sub-header) decoded from a stream that holds fewer bytes than the structure's
  fixed size fails to decode: with TruncatedInput when the stream holds no byte, and
  otherwise with the buffer-too-small \<open>ValueError\<close> of the structure copy.
\<close>

theorem short_read_fails:
  "(length s < sizeof_cls \<longrightarrow>
      XTFBase_new sizeof_cls (Stream s) =
        Inl (if s = [] then TruncatedInput else ValueError BufferSizeTooSmall))
   \<and> (length s < sizeof_XTFFileHeader \<longrightarrow>
      XTFFileHeader_call (Stream s) =
        Inl (if s = [] then TruncatedInput else ValueError BufferSizeTooSmall))
   \<and> (length s < sizeof_XTFPacketStart \<longrightarrow>
      XTFPacketStart_call (Stream s) =
        Inl (if s = [] then TruncatedInput else ValueError BufferSizeTooSmall))
   \<and> (length s < sizeof_XTFPingHeader \<longrightarrow>
      XTFPingHeader_call (Stream s) file_header =
        Inl (if s = [] then TruncatedInput else ValueError BufferSizeTooSmall))
   \<and> (length s < sizeof_XTFPingChanHeader \<longrightarrow>
      XTFPingChanHeader_call (Stream s) =
        Inl (if s = [] then TruncatedInput else ValueError BufferSizeTooSmall))"
  by (simp add: XTFFileHeader_call_def XTFPacketStart_call_def XTFPingHeader_call_def
      XTFPingHeader_new_def XTFPingChanHeader_call_def XTFBase_new_stream)

theorem short_read_fails_witness:
  "XTFFileHeader_call (Stream [0xCE]) = Inl (ValueError BufferSizeTooSmall)
   \<and> XTFPacketStart_call (Stream [0xCE]) = Inl (ValueError BufferSizeTooSmall)
   \<and> XTFPingHeader_call (Stream [0xCE]) None = Inl (ValueError BufferSizeTooSmall)
   \<and> XTFPingChanHeader_call (Stream [0xCE]) = Inl (ValueError BufferSizeTooSmall)
   \<and> XTFPacketStart_call (Stream []) = Inl TruncatedInput"
  using short_read_fails [of "[0xCE]" 64 None] short_read_fails [of "[]" 64 None]
  by (simp add: sizeof_XTFFileHeader_def sizeof_XTFPacketStart_def sizeof_XTFPingHeader_def
      sizeof_XTFPingChanHeader_def)

subsection \<open>The file header and its channel views\<close>

lemma file_header_parse_ok:
  assumes "sizeof_XTFFileHeader \<le> length s"
    and "channel_count (take sizeof_XTFFileHeader s) \<le> 6"
  shows "XTFFileHeader_call (Stream s) =
           Inr (\<lparr>fh_bytes = take sizeof_XTFFileHeader s,
                 sonar_info = Some (filter (\<lambda>x. TypeOfChannel x \<in> set sonar_chan_types)
                   (slots (take sizeof_XTFFileHeader s) (channel_count (take sizeof_XTFFileHeader s)))),
                 bathy_info = Some (filter (\<lambda>x. TypeOfChannel x = bathy)
                   (slots (take sizeof_XTFFileHeader s) (channel_count (take sizeof_XTFFileHeader s))))\<rparr>,
                Stream (drop sizeof_XTFFileHeader s))"
proof -
  have "XTFBase_new sizeof_XTFFileHeader (Stream s) =
          Inr (take sizeof_XTFFileHeader s, Stream (drop sizeof_XTFFileHeader s))"
    using assms(1) by (auto simp: XTFBase_new_stream sizeof_XTFFileHeader_def)
  then show ?thesis
    by (simp add: XTFFileHeader_call_def XTFFileHeader_init_def chan_info_ok [OF assms(2)])
qed

lemma file_header_parse_fail:
  assumes "sizeof_XTFFileHeader \<le> length s"
    and "6 < channel_count (take sizeof_XTFFileHeader s)"
  shows "XTFFileHeader_call (Stream s) = Inl IndexError"
proof -
  have "XTFBase_new sizeof_XTFFileHeader (Stream s) =
          Inr (take sizeof_XTFFileHeader s, Stream (drop sizeof_XTFFileHeader s))"
    using assms(1) by (auto simp: XTFBase_new_stream sizeof_XTFFileHeader_def)
  then show ?thesis
    by (simp add: XTFFileHeader_call_def XTFFileHeader_init_def chan_info_fail [OF assms(2)])
qed

lemma seven_channels_count: "channel_count (take sizeof_XTFFileHeader (replicate 166 0 @ 7 # replicate 857 0)) = 7"
  by (simp add: sizeof_XTFFileHeader_def channel_count_def NumberOfSonarChannels_def
      NumberOfBathymetryChannels_def NumberOfSnippetChannels_def NumberOfForwardLookArrays_def
      NumberOfEchoStrengthChannels_def NumberOfInterferometryChannels_def u16at_def u8at_def
      nth_append)

lemma header_three_channels_length:
  "sizeof_XTFFileHeader \<le> length header_three_channels"
  by (simp add: sizeof_XTFFileHeader_def header_three_channels_def)

lemma header_three_channels_count:
  "channel_count (take sizeof_XTFFileHeader header_three_channels) = 3"
  by code_simp

lemma header_three_channels_sonar:
  "filter (\<lambda>x. TypeOfChannel x \<in> set sonar_chan_types)
     (slots (take sizeof_XTFFileHeader header_three_channels) 3) = [1 # replicate 127 0]"
  by code_simp

lemma header_three_channels_bathy:
  "filter (\<lambda>x. TypeOfChannel x = bathy)
     (slots (take sizeof_XTFFileHeader header_three_channels) 3) = [3 # replicate 127 0]"
  by code_simp

lemma header_three_channels_slots:
  "slots (take sizeof_XTFFileHeader header_three_channels) 3 =
     [1 # replicate 127 0, 9 # replicate 127 0, 3 # replicate 127 0]"
  by code_simp

text \<open>
  Claim C7, as the code has it. The counters of this header sum to 7, and the parse does
  not succeed with six slots: the list comprehension over \<open>range(0, channel_count())\<close>
  indexes \<open>ChanInfo[6]\<close>, and the ctypes array raises \<open>IndexError\<close>.
\<close>

theorem seven_channels_counterexample:
  "channel_count (take sizeof_XTFFileHeader (replicate 166 0 @ 7 # replicate 857 0)) = 7
   \<and> XTFFileHeader_call (Stream (replicate 166 0 @ 7 # replicate 857 0)) = Inl IndexError"
proof -
  have len: "sizeof_XTFFileHeader \<le> length (replicate 166 (0 :: byte) @ 7 # replicate 857 0)"
    by (simp add: sizeof_XTFFileHeader_def)
  have "6 < channel_count (take sizeof_XTFFileHeader (replicate 166 0 @ 7 # replicate 857 0))"
    unfolding seven_channels_count by simp
  from file_header_parse_fail [OF len this] seven_channels_count show ?thesis
    by (rule conjI [rotated])
qed

text \<open>
  Claim C7, amended. \<open>channel_count()\<close> is the sum of the six per-category counters of
  the file header, whatever their values; and for every file header read from a stream
  whose counters sum to at most 6, the parse succeeds and builds both channel views from
  exactly the first \<open>channel_count()\<close> descriptor slots.
\<close>

theorem channel_count_and_parse:
  "channel_count self =
     NumberOfSonarChannels self + NumberOfBathymetryChannels self
     + NumberOfSnippetChannels self + NumberOfForwardLookArrays self
     + NumberOfEchoStrengthChannels self + NumberOfInterferometryChannels self
   \<and> (sizeof_XTFFileHeader \<le> length s \<and> channel_count (take sizeof_XTFFileHeader s) \<le> 6 \<longrightarrow>
        XTFFileHeader_call (Stream s) =
          Inr (\<lparr>fh_bytes = take sizeof_XTFFileHeader s,
                sonar_info = Some (filter (\<lambda>x. TypeOfChannel x \<in> set sonar_chan_types)
                  (slots (take sizeof_XTFFileHeader s) (channel_count (take sizeof_XTFFileHeader s)))),
                bathy_info = Some (filter (\<lambda>x. TypeOfChannel x = bathy)
                  (slots (take sizeof_XTFFileHeader s) (channel_count (take sizeof_XTFFileHeader s))))\<rparr>,
               Stream (drop sizeof_XTFFileHeader s)))"
  using file_header_parse_ok [of s] by (simp add: channel_count_def)

theorem channel_count_and_parse_witness:
  "sizeof_XTFFileHeader \<le> length header_three_channels
   \<and> channel_count (take sizeof_XTFFileHeader header_three_channels) \<le> 6
   \<and> XTFFileHeader_call (Stream header_three_channels) =
       Inr (\<lparr>fh_bytes = take sizeof_XTFFileHeader header_three_channels,
             sonar_info = Some [1 # replicate 127 0],
             bathy_info = Some [3 # replicate 127 0]\<rparr>,
            Stream (drop sizeof_XTFFileHeader header_three_channels))"
  using channel_count_and_parse [of header_three_channels header_three_channels]
    header_three_channels_length
  by (simp add: header_three_channels_count header_three_channels_sonar
      header_three_channels_bathy)

text \<open>
  Claim C10. In every file header parsed from a buffer, the views \<open>sonar_info\<close> and
  \<open>bathy_info\<close> are sublists of the first \<open>channel_count()\<close> descriptor slots (so
  their descriptors keep the slot order), they share no descriptor, and a descriptor
  whose channel type is none of subbottom = 0, port = 1, stbd = 2, bathy = 3 is in
  neither.
\<close>

theorem channel_views:
  assumes "XTFFileHeader_call buffer = Inr (fh, buffer')" and "truthy buffer"
  shows "\<exists>si bi. sonar_info fh = Some si \<and> bathy_info fh = Some bi
           \<and> subseq si (slots (fh_bytes fh) (channel_count (fh_bytes fh)))
           \<and> subseq bi (slots (fh_bytes fh) (channel_count (fh_bytes fh)))
           \<and> set si \<inter> set bi = {}
           \<and> (\<forall>x \<in> set (slots (fh_bytes fh) (channel_count (fh_bytes fh))).
                 TypeOfChannel x \<notin> {subbottom, port, stbd, bathy} \<longrightarrow>
                 x \<notin> set si \<and> x \<notin> set bi)"
proof -
  from assms obtain self where
    init: "XTFFileHeader_init self buffer = Inr fh"
    by (auto simp: XTFFileHeader_call_def split: sum.splits)
  let ?n = "channel_count self"
  have le: "?n \<le> 6"
  proof (rule ccontr)
    assume "\<not> ?n \<le> 6"
    then have "comprehension (ChanInfo self) [0..<?n] = Inl IndexError"
      by (simp add: chan_info_fail)
    with init assms(2) show False
      by (simp add: XTFFileHeader_init_def)
  qed
  from init assms(2) have fh: "fh = \<lparr>fh_bytes = self,
      sonar_info = Some (filter (\<lambda>x. TypeOfChannel x \<in> set sonar_chan_types) (slots self ?n)),
      bathy_info = Some (filter (\<lambda>x. TypeOfChannel x = bathy) (slots self ?n))\<rparr>"
    by (simp add: XTFFileHeader_init_def chan_info_ok [OF le])
  show ?thesis
    unfolding fh
    by (auto simp: sonar_chan_types_def subbottom_def port_def stbd_def bathy_def)
qed

theorem channel_views_witness:
  "XTFFileHeader_call (Stream header_three_channels) =
     Inr (\<lparr>fh_bytes = take sizeof_XTFFileHeader header_three_channels,
           sonar_info = Some [1 # replicate 127 0],
           bathy_info = Some [3 # replicate 127 0]\<rparr>, Stream [])
   \<and> subseq [1 # replicate 127 0]
        [1 # replicate 127 0, 9 # replicate 127 0, 3 # replicate 127 (0::byte)]
   \<and> subseq [3 # replicate 127 0]
        [1 # replicate 127 0, 9 # replicate 127 0, 3 # replicate 127 (0::byte)]
   \<and> 9 # replicate 127 0 \<notin> set [1 # replicate 127 (0::byte)]
   \<and> 9 # replicate 127 0 \<notin> set [3 # replicate 127 (0::byte)]"
proof -
  have call: "XTFFileHeader_call (Stream header_three_channels) =
     Inr (\<lparr>fh_bytes = take sizeof_XTFFileHeader header_three_channels,
           sonar_info = Some [1 # replicate 127 0],
           bathy_info = Some [3 # replicate 127 0]\<rparr>, Stream [])"
    using file_header_parse_ok [of header_three_channels] header_three_channels_length
    by (simp add: header_three_channels_count header_three_channels_sonar
        header_three_channels_bathy)
       (simp add: header_three_channels_def sizeof_XTFFileHeader_def)
  from channel_views [OF call] show ?thesis
    using call by (simp add: header_three_channels_count header_three_channels_slots)
qed

subsection \<open>The ping decoder\<close>

lemma read_stream_nat:
  "read (Stream s) (int n) = Inr (take n s, Stream (drop n s))"
  by simp

lemma chan_header_stream:
  "sizeof_XTFPingChanHeader \<le> length s \<Longrightarrow>
     XTFPingChanHeader_call (Stream s) =
       Inr (take sizeof_XTFPingChanHeader s, Stream (drop sizeof_XTFPingChanHeader s))"
  by (auto simp: XTFPingChanHeader_call_def XTFBase_new_stream sizeof_XTFPingChanHeader_def)

lemma chan_header_Inr:
  "XTFPingChanHeader_call (Stream s) = Inr (p_chan, b) \<Longrightarrow>
     sizeof_XTFPingChanHeader \<le> length s \<and> p_chan = take sizeof_XTFPingChanHeader s
     \<and> b = Stream (drop sizeof_XTFPingChanHeader s)"
  by (auto simp: XTFPingChanHeader_call_def XTFBase_new_stream split: if_splits)

lemma n_samples_resolved:
  assumes "sonar_info fh = Some chans" and "i < length chans"
  shows "n_samples fh i p_chan =
           Inr (if NumSamples p_chan > 0 then NumSamples p_chan else Reserved (chans ! i))"
  using assms by (simp add: n_samples_def sonar_info_getitem_def)

lemma sonar_channel_stream:
  assumes "sonar_info fh = Some chans" and "i < length chans"
    and "sizeof_XTFPingChanHeader \<le> length s"
  shows "sonar_channel fh ph i (Stream s) =
     (let p_chan = take sizeof_XTFPingChanHeader s;
          n = (if NumSamples p_chan > 0 then NumSamples p_chan else Reserved (chans ! i));
          n_bytes = n * BytesPerSample (chans ! i);
          samples = take n_bytes (drop sizeof_XTFPingChanHeader s)
      in if int n_bytes > n_bytes_remaining ph then Inl CorruptRecord
         else if samples = [] then Inl (RuntimeError FileEndedReadingData)
         else (case xtf_dtype (BytesPerSample (chans ! i)) of
                 None \<Rightarrow> Inl KeyError
               | Some itemsize \<Rightarrow>
                   (case frombuffer samples itemsize of
                      Inl e \<Rightarrow> Inl e
                    | Inr arr \<Rightarrow>
                        Inr (p_chan, arr, Stream (drop n_bytes (drop sizeof_XTFPingChanHeader s))))))"
proof -
  have gi: "sonar_info_getitem fh i = Inr (chans ! i)"
    using assms(1,2) by (simp add: sonar_info_getitem_def)
  show ?thesis
    unfolding sonar_channel_def
    by (simp add: chan_header_stream [OF assms(3)] n_samples_resolved [OF assms(1,2)] gi
        read_stream_nat Let_def split: option.splits sum.splits del: of_nat_mult read.simps)
qed

lemma drop_consumed:
  "int (length s) - int (length (drop a (drop b s))) \<le> int b + int a"
  by simp

lemma sonar_channel_consumes:
  assumes "sonar_channel fh ph i (Stream s) = Inr (p_chan, arr, b)"
  shows "\<exists>s'. b = Stream s' \<and> length s' \<le> length s
           \<and> int (length s) - int (length s') \<le> int sizeof_XTFPingChanHeader + n_bytes_remaining ph"
proof -
  from assms obtain pc b1 where
    hd: "XTFPingChanHeader_call (Stream s) = Inr (pc, b1)"
    by (auto simp: sonar_channel_def split: sum.splits)
  from chan_header_Inr [OF hd] have
    len: "sizeof_XTFPingChanHeader \<le> length s" and
    b1: "b1 = Stream (drop sizeof_XTFPingChanHeader s)" by simp_all
  from assms hd obtain n chan where
    le: "\<not> int (n * BytesPerSample chan) > n_bytes_remaining ph" and
    rd: "b = snd (projr (read b1 (int (n * BytesPerSample chan))))"
    by (auto simp: sonar_channel_def split: sum.splits if_splits option.splits
        simp del: of_nat_mult)
  let ?nb = "n * BytesPerSample chan"
  have b: "b = Stream (drop ?nb (drop sizeof_XTFPingChanHeader s))"
    unfolding rd b1 read_stream_nat by simp
  have "int (length s) - int (length (drop ?nb (drop sizeof_XTFPingChanHeader s)))
          \<le> int sizeof_XTFPingChanHeader + int ?nb"
    by (rule drop_consumed)
  with le b show ?thesis
    by (intro exI [of _ "drop ?nb (drop sizeof_XTFPingChanHeader s)"]) simp
qed

lemma sonar_channels_consume:
  "sonar_channels fh ph i k (Stream s) hs ds = Inr (hs', ds', b) \<Longrightarrow>
     \<exists>s'. b = Stream s' \<and> length s' \<le> length s
       \<and> int (length s) - int (length s')
            \<le> int k * (int sizeof_XTFPingChanHeader + n_bytes_remaining ph)"
proof (induction k arbitrary: i s hs ds)
  case 0
  then show ?case by auto
next
  case (Suc k)
  from Suc.prems obtain p_chan arr b1 where
    one: "sonar_channel fh ph i (Stream s) = Inr (p_chan, arr, b1)"
    and rest: "sonar_channels fh ph (Suc i) k b1 (hs @ [p_chan]) (ds @ [arr]) = Inr (hs', ds', b)"
    by (auto split: sum.splits)
  from sonar_channel_consumes [OF one] obtain s1 where
    s1: "b1 = Stream s1" "length s1 \<le> length s"
      "int (length s) - int (length s1) \<le> int sizeof_XTFPingChanHeader + n_bytes_remaining ph"
    by blast
  from Suc.IH [OF rest [unfolded s1(1)]] obtain s' where
    s': "b = Stream s'" "length s' \<le> length s1"
      "int (length s1) - int (length s')
         \<le> int k * (int sizeof_XTFPingChanHeader + n_bytes_remaining ph)"
    by blast
  have "int (length s) - int (length s')
          \<le> (int sizeof_XTFPingChanHeader + n_bytes_remaining ph)
             + int k * (int sizeof_XTFPingChanHeader + n_bytes_remaining ph)"
    using s1(3) s'(3) by linarith
  also have "\<dots> = int (Suc k) * (int sizeof_XTFPingChanHeader + n_bytes_remaining ph)"
    by (simp add: algebra_simps)
  finally show ?case using s1(2) s'(1,2) by simp
qed

lemma ping_header_stream:
  "sizeof_XTFPingHeader \<le> length s \<Longrightarrow>
     XTFBase_new sizeof_XTFPingHeader (Stream s) =
       Inr (take sizeof_XTFPingHeader s, Stream (drop sizeof_XTFPingHeader s))"
  by (auto simp: XTFBase_new_stream sizeof_XTFPingHeader_def)

lemma ping_new_length:
  assumes "XTFPingHeader_new (Stream s) file_header = Inr (p0, b)"
  shows "sizeof_XTFPingHeader \<le> length s"
proof (rule ccontr)
  assume "\<not> sizeof_XTFPingHeader \<le> length s"
  then have "\<exists>e. XTFBase_new sizeof_XTFPingHeader (Stream s) = Inl e"
    by (simp add: XTFBase_new_stream)
  then obtain e where "XTFBase_new sizeof_XTFPingHeader (Stream s) = Inl e" ..
  then have "XTFPingHeader_new (Stream s) file_header = Inl e"
    unfolding XTFPingHeader_new_def by (simp only: sum.case)
  with assms show False by simp
qed

lemma ping_new_sonar:
  assumes "sizeof_XTFPingHeader \<le> length s"
    and "HeaderType (take sizeof_XTFPingHeader s) = sonar"
  shows "XTFPingHeader_new (Stream s) (Some fh) =
     (case sonar_channels fh (take sizeof_XTFPingHeader s) 0
             (NumChansToFollow (take sizeof_XTFPingHeader s))
             (Stream (drop sizeof_XTFPingHeader s)) [] [] of
        Inl e \<Rightarrow> Inl e
      | Inr (hs, ds, buffer2) \<Rightarrow>
          Inr (\<lparr>ph_bytes = take sizeof_XTFPingHeader s, ping_chan_headers = hs,
                data = SampleArrays ds\<rparr>, buffer2))"
  unfolding XTFPingHeader_new_def ping_header_stream [OF assms(1)]
  using assms(2) by simp

lemma ping_new_bytes:
  assumes "XTFPingHeader_new (Stream s) file_header = Inr (p0, b)"
  shows "ph_bytes p0 = take sizeof_XTFPingHeader s"
proof -
  note len = ping_new_length [OF assms]
  from assms obtain fh where fh: "file_header = Some fh"
    unfolding XTFPingHeader_new_def ping_header_stream [OF len]
    by (cases file_header) simp_all
  show ?thesis
  proof (cases "HeaderType (take sizeof_XTFPingHeader s) = sonar")
    case True
    from assms show ?thesis
      unfolding fh ping_new_sonar [OF len True]
      by (auto split: sum.splits)
  next
    case False
    from assms False show ?thesis
      unfolding fh XTFPingHeader_new_def ping_header_stream [OF len]
      by (simp split: sum.splits if_splits prod.splits) auto
  qed
qed

lemma ping_init_bytes:
  "XTFPingHeader_init p0 (Stream s) = Inr p \<Longrightarrow>
     p = p0 \<and> MagicNumber (ph_bytes p0) = 0xFACE"
  by (auto simp: XTFPingHeader_init_def XTFPacketStart_init_def split: if_splits)

lemma ping_call_Inr:
  assumes "XTFPingHeader_call (Stream s) file_header = Inr (p, b)"
  shows "XTFPingHeader_new (Stream s) file_header = Inr (p, b)"
proof -
  from assms obtain p0 where
    new: "XTFPingHeader_new (Stream s) file_header = Inr (p0, b)"
    and init: "XTFPingHeader_init p0 (Stream s) = Inr p"
    unfolding XTFPingHeader_call_def by (auto split: sum.splits)
  from ping_init_bytes [OF init] new show ?thesis by simp
qed

lemma ping_sonar_consumes:
  assumes "XTFPingHeader_call (Stream s) file_header = Inr (p, b)"
    and "HeaderType (ph_bytes p) = sonar"
  shows "\<exists>s'. b = Stream s' \<and> length s' \<le> length s
           \<and> int (length s) - int (length s')
                \<le> int sizeof_XTFPingHeader
                   + int (NumChansToFollow (ph_bytes p))
                     * (int (NumBytesThisRecord (ph_bytes p)) - int sizeof_XTFPingHeader)"
proof -
  note new = ping_call_Inr [OF assms(1)]
  note len = ping_new_length [OF new]
  note bytes = ping_new_bytes [OF new]
  from new obtain fh where fh: "file_header = Some fh"
    unfolding XTFPingHeader_new_def ping_header_stream [OF len]
    by (cases file_header) simp_all
  have ty: "HeaderType (take sizeof_XTFPingHeader s) = sonar"
    using assms(2) bytes by simp
  from new obtain hs ds where
    loop: "sonar_channels fh (ph_bytes p) 0 (NumChansToFollow (ph_bytes p))
                (Stream (drop sizeof_XTFPingHeader s)) [] [] = Inr (hs, ds, b)"
    unfolding fh ping_new_sonar [OF len ty] bytes
    by (auto split: sum.splits)
  from sonar_channels_consume [OF loop] obtain s' where
    s': "b = Stream s'" "length s' \<le> length (drop sizeof_XTFPingHeader s)"
      "int (length (drop sizeof_XTFPingHeader s)) - int (length s')
         \<le> int (NumChansToFollow (ph_bytes p))
            * (int sizeof_XTFPingChanHeader + n_bytes_remaining (ph_bytes p))"
    by blast
  have eq: "int sizeof_XTFPingChanHeader + n_bytes_remaining (ph_bytes p)
          = int (NumBytesThisRecord (ph_bytes p)) - int sizeof_XTFPingHeader"
    by (simp add: n_bytes_remaining_def)
  define K where "K = int (NumChansToFollow (ph_bytes p))
            * (int (NumBytesThisRecord (ph_bytes p)) - int sizeof_XTFPingHeader)"
  have d: "int (length s) = int sizeof_XTFPingHeader + int (length (drop sizeof_XTFPingHeader s))"
    using len by simp
  have k: "int (length (drop sizeof_XTFPingHeader s)) - int (length s') \<le> K"
    using s'(3) unfolding eq K_def .
  have 1: "int (length s) - int (length s') \<le> int sizeof_XTFPingHeader + K"
    using d k by linarith
  have 2: "length s' \<le> length s"
    using s'(2) by simp
  show ?thesis
    using s'(1) 1 2 unfolding K_def by blast
qed

lemma sonar_channel_ok:
  assumes "sonar_info fh = Some chans" and "i < length chans"
    and "length p_chan = sizeof_XTFPingChanHeader"
    and "length samples =
           (if NumSamples p_chan > 0 then NumSamples p_chan else Reserved (chans ! i))
           * BytesPerSample (chans ! i)"
    and "samples \<noteq> []"
    and "int (length samples) \<le> n_bytes_remaining ph"
    and "xtf_dtype (BytesPerSample (chans ! i)) = Some w"
    and "frombuffer samples w = Inr arr"
  shows "sonar_channel fh ph i (Stream (p_chan @ samples @ rest)) = Inr (p_chan, arr, Stream rest)"
proof -
  have len: "sizeof_XTFPingChanHeader \<le> length (p_chan @ samples @ rest)"
    using assms(3) by simp
  have tk: "take sizeof_XTFPingChanHeader (p_chan @ samples @ rest) = p_chan"
    and dr: "drop sizeof_XTFPingChanHeader (p_chan @ samples @ rest) = samples @ rest"
    using assms(3) by simp_all
  show ?thesis
    unfolding sonar_channel_stream [OF assms(1,2) len] tk dr Let_def assms(4) [symmetric]
    using assms(5-8) by simp
qed

lemma ping_call_sonar_ok:
  assumes "length hdr = sizeof_XTFPingHeader" and "HeaderType hdr = sonar"
    and "MagicNumber hdr = 0xFACE"
    and "sonar_channels fh hdr 0 (NumChansToFollow hdr) (Stream rest) [] [] = Inr (hs, ds, b)"
  shows "XTFPingHeader_call (Stream (hdr @ rest)) (Some fh) =
           Inr (\<lparr>ph_bytes = hdr, ping_chan_headers = hs, data = SampleArrays ds\<rparr>, b)"
proof -
  have len: "sizeof_XTFPingHeader \<le> length (hdr @ rest)"
    using assms(1) by simp
  have tk: "take sizeof_XTFPingHeader (hdr @ rest) = hdr"
    and dr: "drop sizeof_XTFPingHeader (hdr @ rest) = rest"
    using assms(1) by simp_all
  have ty: "HeaderType (take sizeof_XTFPingHeader (hdr @ rest)) = sonar"
    unfolding tk by (rule assms(2))
  show ?thesis
    unfolding XTFPingHeader_call_def ping_new_sonar [OF len ty] tk dr assms(4)
    using assms(3) by (simp add: XTFPingHeader_init_def XTFPacketStart_init_def)
qed







text \<open>
  The loop over \<open>k + m\<close> channels is the loop over \<open>k\<close> channels followed by the loop
  over the next \<open>m\<close>; an exception raised in a pass leaves the loop and the decoder.
\<close>

lemma sonar_channels_append:
  "sonar_channels fh ph i (k + m) b hs ds =
     (case sonar_channels fh ph i k b hs ds of
        Inl e \<Rightarrow> Inl e
      | Inr (hs', ds', b') \<Rightarrow> sonar_channels fh ph (i + k) m b' hs' ds')"
proof (induction k arbitrary: i b hs ds)
  case 0
  show ?case by simp
next
  case (Suc k)
  show ?case
    by (simp add: Suc.IH split: sum.splits)
qed

lemma sonar_channel_corrupt:
  assumes "sonar_info fh = Some chans" and "i < length chans"
    and "sizeof_XTFPingChanHeader \<le> length s"
    and "n_samples fh i (take sizeof_XTFPingChanHeader s) = Inr n"
    and "int (n * BytesPerSample (chans ! i))
          > int (NumBytesThisRecord ph) - int sizeof_XTFPingHeader - int sizeof_XTFPingChanHeader"
  shows "sonar_channel fh ph i (Stream s) = Inl CorruptRecord"
proof -
  from assms(1,2) have gi: "sonar_info_getitem fh i = Inr (chans ! i)"
    by (simp add: sonar_info_getitem_def)
  from assms(3-5) show ?thesis
    unfolding sonar_channel_def
    by (simp add: chan_header_stream gi n_bytes_remaining_def del: of_nat_mult)
qed

lemma ping_call_corrupt:
  assumes len: "sizeof_XTFPingHeader \<le> length r"
    and ty: "HeaderType (take sizeof_XTFPingHeader r) = sonar"
    and j: "j < NumChansToFollow (take sizeof_XTFPingHeader r)"
    and before: "sonar_channels fh (take sizeof_XTFPingHeader r) 0 j
                   (Stream (drop sizeof_XTFPingHeader r)) [] [] = Inr (hs, ds, Stream u)"
    and bad: "sonar_channel fh (take sizeof_XTFPingHeader r) j (Stream u) = Inl e"
  shows "XTFPingHeader_call (Stream r) (Some fh) = Inl e"
proof -
  define m where "m = NumChansToFollow (take sizeof_XTFPingHeader r) - Suc j"
  have k: "NumChansToFollow (take sizeof_XTFPingHeader r) = j + Suc m"
    using j by (simp add: m_def)
  have "sonar_channels fh (take sizeof_XTFPingHeader r) 0 (j + Suc m)
          (Stream (drop sizeof_XTFPingHeader r)) [] [] = Inl e"
    unfolding sonar_channels_append before by (simp add: bad)
  then have "XTFPingHeader_new (Stream r) (Some fh) = Inl e"
    unfolding ping_new_sonar [OF len ty] k by simp
  then show ?thesis
    unfolding XTFPingHeader_call_def by simp
qed

subsection \<open>Example records\<close>

lemma chan_header_bytes_length [simp]: "length (chan_header_bytes ns) = 64"
  by (simp add: chan_header_bytes_def)

lemma ping_header_bytes_length [simp]: "length (ping_header_bytes ty k n) = 256"
  by (simp add: ping_header_bytes_def)

lemma chan_info_bytes_length [simp]: "length (chan_info_bytes ty bps res) = 128"
  by (simp add: chan_info_bytes_def)

lemma NumSamples_chan_header_bytes:
  "ns < 256 \<Longrightarrow> NumSamples (chan_header_bytes ns) = ns"
  by (simp add: NumSamples_def chan_header_bytes_def u32at_def u16at_def u8at_def nth_append
      unat_of_nat)

lemma chan_info_bytes_fields:
  "bps < 256 \<Longrightarrow> BytesPerSample (chan_info_bytes ty bps res) = bps"
  "res < 256 \<Longrightarrow> Reserved (chan_info_bytes ty bps res) = res"
  "ty < 256 \<Longrightarrow> TypeOfChannel (chan_info_bytes ty bps res) = ty"
  by (simp_all add: BytesPerSample_def Reserved_def TypeOfChannel_def chan_info_bytes_def
      u32at_def u16at_def u8at_def nth_append unat_of_nat)

lemma ping_header_bytes_fields:
  "MagicNumber (ping_header_bytes ty k n) = 0xFACE"
  "ty < 256 \<Longrightarrow> HeaderType (ping_header_bytes ty k n) = ty"
  "k < 256 \<Longrightarrow> NumChansToFollow (ping_header_bytes ty k n) = k"
  "n < 65536 \<Longrightarrow> NumBytesThisRecord (ping_header_bytes ty k n) = n"
  by (simp_all add: MagicNumber_def HeaderType_def NumChansToFollow_def NumBytesThisRecord_def
      ping_header_bytes_def u32at_def u16at_def u8at_def unat_of_nat)

lemma sonar_info_file_header_with [simp]: "sonar_info (file_header_with chans) = Some chans"
  by (simp add: file_header_with_def)

lemma xtf_dtype_two: "xtf_dtype 2 = Some 2"
  by (simp add: xtf_dtype_def)

lemma frombuffer_2_3: "frombuffer [2, 0, 3, 0] 2 = Inr [2, 3]"
  by code_simp

lemma frombuffer_4_5: "frombuffer [4, 0, 5, 0] 2 = Inr [4, 5]"
  by code_simp

lemma frombuffer_2_3_4: "frombuffer [2, 0, 3, 0, 4, 0] 2 = Inr [2, 3, 4]"
  by code_simp

lemma frombuffer_2_to_6: "frombuffer [2, 0, 3, 0, 4, 0, 5, 0, 6, 0] 2 = Inr [2, 3, 4, 5, 6]"
  by code_simp

lemma remaining_324: "n_bytes_remaining (ping_header_bytes 0 2 324) = 4"
  by (simp add: n_bytes_remaining_def ping_header_bytes_fields sizeof_XTFPingHeader_def
      sizeof_XTFPingChanHeader_def)

lemma remaining_330: "n_bytes_remaining (ping_header_bytes 0 k 330) = 10"
  by (simp add: n_bytes_remaining_def ping_header_bytes_fields sizeof_XTFPingHeader_def
      sizeof_XTFPingChanHeader_def)

lemma channel_first_of_two:
  "sonar_channel (file_header_with [chan_info_bytes 2 2 0, chan_info_bytes 0 2 0])
     (ping_header_bytes 0 2 324) 0
     (Stream (chan_header_bytes 2 @ 2 # 0 # 3 # 0 # rest)) =
   Inr (chan_header_bytes 2, [2, 3], Stream rest)"
  using sonar_channel_ok [where w = 2 and rest = rest
      and samples = "[2, 0, 3, 0]" and p_chan = "chan_header_bytes 2" and i = 0
      and fh = "file_header_with [chan_info_bytes 2 2 0, chan_info_bytes 0 2 0]"
      and ph = "ping_header_bytes 0 2 324" and arr = "[2, 3]"]
  by (simp add: NumSamples_chan_header_bytes chan_info_bytes_fields remaining_324 xtf_dtype_two frombuffer_2_3
       sizeof_XTFPingChanHeader_def)

lemma channel_second_of_two:
  "sonar_channel (file_header_with [chan_info_bytes 2 2 0, chan_info_bytes 0 2 0])
     (ping_header_bytes 0 2 324) (Suc 0)
     (Stream (chan_header_bytes 2 @ 4 # 0 # 5 # 0 # rest)) =
   Inr (chan_header_bytes 2, [4, 5], Stream rest)"
  using sonar_channel_ok [where w = 2 and rest = rest and samples = "[4, 0, 5, 0]"
      and p_chan = "chan_header_bytes 2" and i = "Suc 0"
      and fh = "file_header_with [chan_info_bytes 2 2 0, chan_info_bytes 0 2 0]"
      and ph = "ping_header_bytes 0 2 324" and arr = "[4, 5]"]
  by (simp add: NumSamples_chan_header_bytes chan_info_bytes_fields remaining_324 xtf_dtype_two frombuffer_4_5
       sizeof_XTFPingChanHeader_def)

lemma channel_five_samples:
  "sonar_channel (file_header_with [chan_info_bytes 2 2 3]) (ping_header_bytes 0 k 330) 0
     (Stream (chan_header_bytes 5 @ 2 # 0 # 3 # 0 # 4 # 0 # 5 # 0 # 6 # 0 # rest)) =
   Inr (chan_header_bytes 5, [2, 3, 4, 5, 6], Stream rest)"
  using sonar_channel_ok [where w = 2 and rest = rest
      and samples = "[2, 0, 3, 0, 4, 0, 5, 0, 6, 0]" and p_chan = "chan_header_bytes 5" and i = 0
      and fh = "file_header_with [chan_info_bytes 2 2 3]"
      and ph = "ping_header_bytes 0 k 330" and arr = "[2, 3, 4, 5, 6]"]
  by (simp add: NumSamples_chan_header_bytes chan_info_bytes_fields remaining_330 xtf_dtype_two frombuffer_2_to_6
       sizeof_XTFPingChanHeader_def)

lemma three_descriptors_fields:
  "length three_descriptors = 3"
  "BytesPerSample (three_descriptors ! 0) = 2" "Reserved (three_descriptors ! 0) = 3"
  "BytesPerSample (three_descriptors ! Suc 0) = 2" "Reserved (three_descriptors ! Suc 0) = 2"
  "BytesPerSample (three_descriptors ! Suc (Suc 0)) = 4"
  "Reserved (three_descriptors ! Suc (Suc 0)) = 3"
  by (simp_all add: three_descriptors_def chan_info_bytes_fields)





lemma descriptor_zero_legacy:
  assumes "6 \<le> n_bytes_remaining ph"
  shows "sonar_channel (file_header_with three_descriptors) ph 0
     (Stream (chan_header_bytes 0 @ 2 # 0 # 3 # 0 # 4 # 0 # rest)) =
   Inr (chan_header_bytes 0, [2, 3, 4], Stream rest)"
  using sonar_channel_ok [where w = 2 and rest = rest
      and samples = "[2, 0, 3, 0, 4, 0]" and p_chan = "chan_header_bytes 0" and i = 0
      and fh = "file_header_with three_descriptors" and chans = three_descriptors
      and ph = ph and arr = "[2, 3, 4]"] assms
  by (simp add: NumSamples_chan_header_bytes three_descriptors_fields xtf_dtype_two
      frombuffer_2_3_4 sizeof_XTFPingChanHeader_def)





subsection \<open>The sample count of a sonar channel\<close>



subsection \<open>Raw serial packets\<close>

lemma raw_serial_fails:
  assumes "sizeof_XTFRawSerialHeader \<le> length s"
    and "MagicNumber (take sizeof_XTFRawSerialHeader s) = 0xFACE"
  shows "XTFRawSerialHeader_call (Stream s) = Inl AttributeError"
proof -
  have "XTFBase_new sizeof_XTFRawSerialHeader (Stream s) =
          Inr (take sizeof_XTFRawSerialHeader s, Stream (drop sizeof_XTFRawSerialHeader s))"
    using assms(1) by (auto simp: XTFBase_new_stream sizeof_XTFRawSerialHeader_def)
  then show ?thesis
    using assms(2)
    by (simp add: XTFRawSerialHeader_call_def XTFRawSerialHeader_init_def
        XTFPacketStart_init_def int_value_def)
qed

text \<open>
  Claim C2, evaluated on the code. \<open>XTFRawSerialHeader.__init__\<close> computes the number
  of bytes to read as \<open>self.StringSize.value\<close>, but \<open>self.StringSize\<close> is a Python
  \<open>int\<close>, so whenever a buffer is given and the magic number is right the constructor
  raises \<open>AttributeError\<close> before anything is read after the 30-byte fixed part. The
  input is a well-formed raw serial packet (header type 6, \<open>StringSize = 3\<close>, payload
  \<open>abc\<close>): the decode raises instead of storing the three bytes as \<open>RawAsciiData\<close>.
\<close>

theorem raw_serial_attribute_error:
  "StringSize (take sizeof_XTFRawSerialHeader
      [0xCE, 0xFA, 6, 0, 0, 0, 0, 0, 0, 0, 33, 0, 0, 0, 0xE4, 0x07, 3, 1, 0, 0, 0, 50,
       0, 0, 0, 0, 0, 0, 3, 0, 0x61, 0x62, 0x63]) = 3
   \<and> XTFRawSerialHeader_call (Stream
      [0xCE, 0xFA, 6, 0, 0, 0, 0, 0, 0, 0, 33, 0, 0, 0, 0xE4, 0x07, 3, 1, 0, 0, 0, 50,
       0, 0, 0, 0, 0, 0, 3, 0, 0x61, 0x62, 0x63]) = Inl AttributeError"
proof
  show "StringSize (take sizeof_XTFRawSerialHeader
      [0xCE, 0xFA, 6, 0, 0, 0, 0, 0, 0, 0, 33, 0, 0, 0, 0xE4, 0x07, 3, 1, 0, 0, 0, 50,
       0, 0, 0, 0, 0, 0, 3, 0, 0x61, 0x62, 0x63]) = 3"
    by (simp add: StringSize_def sizeof_XTFRawSerialHeader_def u16at_def u8at_def)
  show "XTFRawSerialHeader_call (Stream
      [0xCE, 0xFA, 6, 0, 0, 0, 0, 0, 0, 0, 33, 0, 0, 0, 0xE4, 0x07, 3, 1, 0, 0, 0, 50,
       0, 0, 0, 0, 0, 0, 3, 0, 0x61, 0x62, 0x63]) = Inl AttributeError"
    by (rule raw_serial_fails)
       (simp_all add: sizeof_XTFRawSerialHeader_def MagicNumber_def u16at_def u8at_def)
qed

subsection \<open>The bounds check of the sonar ping decoder\<close>

text \<open>
  Claim C1, as the code has it. \<open>n_bytes_remaining\<close> is the same number in every pass of
  the channel loop: what earlier channels consumed is not subtracted. This record declares
  324 bytes, room for the ping header, one channel header and 4 sample bytes, and two
  channels to follow. Both channels pass the check, no CorruptRecord is raised, and the
  decoder consumes 392 bytes: the second channel header and its samples lie past the
  frame boundary.
\<close>

theorem two_channels_counterexample:
  "NumBytesThisRecord (ping_header_bytes 0 2 324) = 324
   \<and> length (ping_header_bytes 0 2 324 @ chan_header_bytes 2 @ [2, 0, 3, 0]
              @ chan_header_bytes 2 @ [4, 0, 5, 0]) = 392
   \<and> XTFPingHeader_call
        (Stream (ping_header_bytes 0 2 324 @ chan_header_bytes 2 @ [2, 0, 3, 0]
                 @ chan_header_bytes 2 @ [4, 0, 5, 0]))
        (Some (file_header_with [chan_info_bytes 2 2 0, chan_info_bytes 0 2 0])) =
       Inr (\<lparr>ph_bytes = ping_header_bytes 0 2 324,
             ping_chan_headers = [chan_header_bytes 2, chan_header_bytes 2],
             data = SampleArrays [[2, 3], [4, 5]]\<rparr>, Stream [])"
proof -
  have loop: "sonar_channels (file_header_with [chan_info_bytes 2 2 0, chan_info_bytes 0 2 0])
      (ping_header_bytes 0 2 324) 0 (NumChansToFollow (ping_header_bytes 0 2 324))
      (Stream (chan_header_bytes 2 @ [2, 0, 3, 0] @ chan_header_bytes 2 @ [4, 0, 5, 0])) [] [] =
    Inr ([chan_header_bytes 2, chan_header_bytes 2], [[2, 3], [4, 5]], Stream [])"
  proof -
    have k: "NumChansToFollow (ping_header_bytes 0 2 324) = Suc (Suc 0)"
      by (simp add: ping_header_bytes_fields)
    show ?thesis
      unfolding k by (simp add: channel_first_of_two channel_second_of_two)
  qed
  have "XTFPingHeader_call
        (Stream (ping_header_bytes 0 2 324 @ chan_header_bytes 2 @ [2, 0, 3, 0]
                 @ chan_header_bytes 2 @ [4, 0, 5, 0]))
        (Some (file_header_with [chan_info_bytes 2 2 0, chan_info_bytes 0 2 0])) =
       Inr (\<lparr>ph_bytes = ping_header_bytes 0 2 324,
             ping_chan_headers = [chan_header_bytes 2, chan_header_bytes 2],
             data = SampleArrays [[2, 3], [4, 5]]\<rparr>, Stream [])"
    by (rule ping_call_sonar_ok [OF _ _ _ loop])
       (simp_all add: ping_header_bytes_fields sizeof_XTFPingHeader_def sonar_def)
  then show ?thesis
    by (simp add: ping_header_bytes_fields)
qed

text \<open>
  Claim C1, amended. In each pass of the channel loop the decoder compares the sample
  bytes \<open>n_bytes\<close> with \<open>NumBytesThisRecord - sizeof(XTFPingHeader) -
  sizeof(XTFPingChanHeader)\<close> and raises CorruptRecord when \<open>n_bytes\<close> is greater.
  Consequently, for every sonar ping record and every number of channels to follow: when
  the passes before channel \<open>j\<close> succeed and the sample bytes of channel \<open>j\<close> exceed
  that number, decoding the record yields CorruptRecord. And for a sonar ping with at
  most one channel to follow, a record that decodes has consumed no byte past the frame
  boundary: the ping header alone when no channel follows, at most
  \<open>NumBytesThisRecord\<close> bytes when one does.
\<close>

theorem sonar_bytes_check:
  "(sonar_info fh = Some chans \<and> i < length chans \<and> sizeof_XTFPingChanHeader \<le> length s
      \<and> n_samples fh i (take sizeof_XTFPingChanHeader s) = Inr n
      \<and> int (n * BytesPerSample (chans ! i))
          > int (NumBytesThisRecord ph) - int sizeof_XTFPingHeader - int sizeof_XTFPingChanHeader
      \<longrightarrow> sonar_channel fh ph i (Stream s) = Inl CorruptRecord)
   \<and> (sizeof_XTFPingHeader \<le> length r
      \<and> HeaderType (take sizeof_XTFPingHeader r) = sonar
      \<and> j < NumChansToFollow (take sizeof_XTFPingHeader r)
      \<and> sonar_channels fh' (take sizeof_XTFPingHeader r) 0 j
            (Stream (drop sizeof_XTFPingHeader r)) [] [] = Inr (hs, ds, Stream u)
      \<and> sonar_info fh' = Some chans' \<and> j < length chans'
      \<and> sizeof_XTFPingChanHeader \<le> length u
      \<and> n_samples fh' j (take sizeof_XTFPingChanHeader u) = Inr m
      \<and> int (m * BytesPerSample (chans' ! j))
          > int (NumBytesThisRecord (take sizeof_XTFPingHeader r)) - int sizeof_XTFPingHeader
            - int sizeof_XTFPingChanHeader
      \<longrightarrow> XTFPingHeader_call (Stream r) (Some fh') = Inl CorruptRecord)
   \<and> (XTFPingHeader_call (Stream t) file_header = Inr (p, b) \<and> HeaderType (ph_bytes p) = sonar
      \<longrightarrow> (\<exists>t'. b = Stream t' \<and> length t' \<le> length t
             \<and> (NumChansToFollow (ph_bytes p) = 0 \<longrightarrow>
                   length t - length t' \<le> sizeof_XTFPingHeader)
             \<and> (NumChansToFollow (ph_bytes p) = 1 \<longrightarrow>
                   length t - length t' \<le> NumBytesThisRecord (ph_bytes p))))"
proof (intro conjI impI)
  assume "sonar_info fh = Some chans \<and> i < length chans \<and> sizeof_XTFPingChanHeader \<le> length s
      \<and> n_samples fh i (take sizeof_XTFPingChanHeader s) = Inr n
      \<and> int (n * BytesPerSample (chans ! i))
          > int (NumBytesThisRecord ph) - int sizeof_XTFPingHeader - int sizeof_XTFPingChanHeader"
  then show "sonar_channel fh ph i (Stream s) = Inl CorruptRecord"
    by (elim conjE) (rule sonar_channel_corrupt)
next
  assume a: "sizeof_XTFPingHeader \<le> length r
      \<and> HeaderType (take sizeof_XTFPingHeader r) = sonar
      \<and> j < NumChansToFollow (take sizeof_XTFPingHeader r)
      \<and> sonar_channels fh' (take sizeof_XTFPingHeader r) 0 j
            (Stream (drop sizeof_XTFPingHeader r)) [] [] = Inr (hs, ds, Stream u)
      \<and> sonar_info fh' = Some chans' \<and> j < length chans'
      \<and> sizeof_XTFPingChanHeader \<le> length u
      \<and> n_samples fh' j (take sizeof_XTFPingChanHeader u) = Inr m
      \<and> int (m * BytesPerSample (chans' ! j))
          > int (NumBytesThisRecord (take sizeof_XTFPingHeader r)) - int sizeof_XTFPingHeader
            - int sizeof_XTFPingChanHeader"
  then have bad: "sonar_channel fh' (take sizeof_XTFPingHeader r) j (Stream u) = Inl CorruptRecord"
    by (elim conjE) (rule sonar_channel_corrupt)
  from a show "XTFPingHeader_call (Stream r) (Some fh') = Inl CorruptRecord"
    by (elim conjE) (rule ping_call_corrupt [OF _ _ _ _ bad])
next
  assume "XTFPingHeader_call (Stream t) file_header = Inr (p, b) \<and> HeaderType (ph_bytes p) = sonar"
  then have c: "XTFPingHeader_call (Stream t) file_header = Inr (p, b)"
    and h: "HeaderType (ph_bytes p) = sonar" by simp_all
  from ping_sonar_consumes [OF c h] obtain t' where
    t': "b = Stream t'" "length t' \<le> length t"
      "int (length t) - int (length t')
                \<le> int sizeof_XTFPingHeader
                   + int (NumChansToFollow (ph_bytes p))
                     * (int (NumBytesThisRecord (ph_bytes p)) - int sizeof_XTFPingHeader)"
    by blast
  have zero: "NumChansToFollow (ph_bytes p) = 0 \<longrightarrow>
          length t - length t' \<le> sizeof_XTFPingHeader"
  proof
    assume "NumChansToFollow (ph_bytes p) = 0"
    with t'(3) have "int (length t) - int (length t') \<le> int sizeof_XTFPingHeader"
      by simp
    with t'(2) show "length t - length t' \<le> sizeof_XTFPingHeader"
      by linarith
  qed
  have one: "NumChansToFollow (ph_bytes p) = 1 \<longrightarrow>
          length t - length t' \<le> NumBytesThisRecord (ph_bytes p)"
  proof
    assume "NumChansToFollow (ph_bytes p) = 1"
    with t'(3) have "int (length t) - int (length t') \<le> int (NumBytesThisRecord (ph_bytes p))"
      by simp
    with t'(2) show "length t - length t' \<le> NumBytesThisRecord (ph_bytes p)"
      by linarith
  qed
  show "\<exists>t'. b = Stream t' \<and> length t' \<le> length t
             \<and> (NumChansToFollow (ph_bytes p) = 0 \<longrightarrow>
                   length t - length t' \<le> sizeof_XTFPingHeader)
             \<and> (NumChansToFollow (ph_bytes p) = 1 \<longrightarrow>
                   length t - length t' \<le> NumBytesThisRecord (ph_bytes p))"
    using t'(1,2) zero one by (intro exI [of _ t'] conjI)
qed

text \<open>
  A channel that declares 5 samples of 2 bytes in a record of 325 bytes, where 5 bytes
  remain: the pass and the record yield CorruptRecord. A record of 330 bytes with two
  channels whose second channel declares 12 sample bytes where 10 remain: the record
  yields CorruptRecord. A record of 330 bytes with one channel of 10 sample bytes
  decodes, and the two bytes after it stay in the stream.
\<close>

theorem sonar_bytes_check_witness:
  "sonar_channel (file_header_with [chan_info_bytes 2 2 3]) (ping_header_bytes 0 1 325) 0
     (Stream (chan_header_bytes 5)) = Inl CorruptRecord
   \<and> XTFPingHeader_call (Stream (ping_header_bytes 0 1 325 @ chan_header_bytes 5))
        (Some (file_header_with [chan_info_bytes 2 2 3])) = Inl CorruptRecord
   \<and> XTFPingHeader_call
        (Stream (ping_header_bytes 0 2 330 @ chan_header_bytes 0 @ [2, 0, 3, 0, 4, 0]
                 @ chan_header_bytes 6))
        (Some (file_header_with three_descriptors)) = Inl CorruptRecord
   \<and> XTFPingHeader_call
        (Stream (ping_header_bytes 0 1 330 @ chan_header_bytes 5
                 @ [2, 0, 3, 0, 4, 0, 5, 0, 6, 0, 9, 9]))
        (Some (file_header_with [chan_info_bytes 2 2 3])) =
       Inr (\<lparr>ph_bytes = ping_header_bytes 0 1 330, ping_chan_headers = [chan_header_bytes 5],
             data = SampleArrays [[2, 3, 4, 5, 6]]\<rparr>, Stream [9, 9])
   \<and> length (ping_header_bytes 0 1 330 @ chan_header_bytes 5
                 @ [2, 0, 3, 0, 4, 0, 5, 0, 6, 0, 9, 9]) - length [9, 9 :: byte]
        \<le> NumBytesThisRecord (ping_header_bytes 0 1 330)"
proof -
  let ?fh = "file_header_with [chan_info_bytes 2 2 3]"
  let ?t = "ping_header_bytes 0 1 330 @ chan_header_bytes 5 @ [2, 0, 3, 0, 4, 0, 5, 0, 6, 0, 9, 9]"
  let ?p = "\<lparr>ph_bytes = ping_header_bytes 0 1 330, ping_chan_headers = [chan_header_bytes 5],
             data = SampleArrays [[2, 3, 4, 5, 6]]\<rparr>"
  let ?r0 = "ping_header_bytes 0 1 325 @ chan_header_bytes 5"
  let ?fh3 = "file_header_with three_descriptors"
  let ?r1 = "ping_header_bytes 0 2 330 @ chan_header_bytes 0 @ [2, 0, 3, 0, 4, 0]
                 @ chan_header_bytes 6"
  have k: "NumChansToFollow (ping_header_bytes 0 1 330) = Suc 0"
    by (simp add: ping_header_bytes_fields)
  have loop: "sonar_channels ?fh (ping_header_bytes 0 1 330) 0
      (NumChansToFollow (ping_header_bytes 0 1 330))
      (Stream (chan_header_bytes 5 @ [2, 0, 3, 0, 4, 0, 5, 0, 6, 0, 9, 9])) [] [] =
    Inr ([chan_header_bytes 5], [[2, 3, 4, 5, 6]], Stream [9, 9])"
    unfolding k by (simp add: channel_five_samples)
  have call: "XTFPingHeader_call (Stream ?t) (Some ?fh) = Inr (?p, Stream [9, 9])"
    by (rule ping_call_sonar_ok [OF _ _ _ loop])
       (simp_all add: ping_header_bytes_fields sizeof_XTFPingHeader_def sonar_def)
  have ty: "HeaderType (ph_bytes ?p) = sonar"
    by (simp add: ping_header_bytes_fields sonar_def)
  have ns: "n_samples ?fh 0 (take sizeof_XTFPingChanHeader (chan_header_bytes 5)) = Inr 5"
    by (simp add: n_samples_def NumSamples_chan_header_bytes sizeof_XTFPingChanHeader_def)
  have gt: "int (5 * BytesPerSample ([chan_info_bytes 2 2 3] ! 0))
      > int (NumBytesThisRecord (ping_header_bytes 0 1 325)) - int sizeof_XTFPingHeader
        - int sizeof_XTFPingChanHeader"
    by (simp add: chan_info_bytes_fields ping_header_bytes_fields sizeof_XTFPingHeader_def
        sizeof_XTFPingChanHeader_def)
  have hyp: "sonar_info ?fh = Some [chan_info_bytes 2 2 3] \<and> 0 < length [chan_info_bytes 2 2 3]
      \<and> sizeof_XTFPingChanHeader \<le> length (chan_header_bytes 5)
      \<and> n_samples ?fh 0 (take sizeof_XTFPingChanHeader (chan_header_bytes 5)) = Inr 5
      \<and> int (5 * BytesPerSample ([chan_info_bytes 2 2 3] ! 0))
          > int (NumBytesThisRecord (ping_header_bytes 0 1 325)) - int sizeof_XTFPingHeader
            - int sizeof_XTFPingChanHeader"
    using ns gt by (simp add: sizeof_XTFPingChanHeader_def)
  have tk0: "take sizeof_XTFPingHeader ?r0 = ping_header_bytes 0 1 325"
    and dr0: "drop sizeof_XTFPingHeader ?r0 = chan_header_bytes 5"
    and len0: "sizeof_XTFPingHeader \<le> length ?r0"
    by (simp_all add: sizeof_XTFPingHeader_def)
  have hyp0: "sizeof_XTFPingHeader \<le> length ?r0
      \<and> HeaderType (take sizeof_XTFPingHeader ?r0) = sonar
      \<and> 0 < NumChansToFollow (take sizeof_XTFPingHeader ?r0)
      \<and> sonar_channels ?fh (take sizeof_XTFPingHeader ?r0) 0 0
            (Stream (drop sizeof_XTFPingHeader ?r0)) [] [] = Inr ([], [], Stream (chan_header_bytes 5))
      \<and> sonar_info ?fh = Some [chan_info_bytes 2 2 3] \<and> 0 < length [chan_info_bytes 2 2 3]
      \<and> sizeof_XTFPingChanHeader \<le> length (chan_header_bytes 5)
      \<and> n_samples ?fh 0 (take sizeof_XTFPingChanHeader (chan_header_bytes 5)) = Inr 5
      \<and> int (5 * BytesPerSample ([chan_info_bytes 2 2 3] ! 0))
          > int (NumBytesThisRecord (take sizeof_XTFPingHeader ?r0)) - int sizeof_XTFPingHeader
            - int sizeof_XTFPingChanHeader"
    unfolding tk0 dr0 using len0 hyp
    by (simp add: ping_header_bytes_fields sonar_def)
  have tk1: "take sizeof_XTFPingHeader ?r1 = ping_header_bytes 0 2 330"
    and dr1: "drop sizeof_XTFPingHeader ?r1
                = chan_header_bytes 0 @ [2, 0, 3, 0, 4, 0] @ chan_header_bytes 6"
    and len1: "sizeof_XTFPingHeader \<le> length ?r1"
    by (simp_all add: sizeof_XTFPingHeader_def)
  have before: "sonar_channels ?fh3 (ping_header_bytes 0 2 330) 0 (Suc 0)
            (Stream (chan_header_bytes 0 @ [2, 0, 3, 0, 4, 0] @ chan_header_bytes 6)) [] []
          = Inr ([chan_header_bytes 0], [[2, 3, 4]], Stream (chan_header_bytes 6))"
    by (simp add: descriptor_zero_legacy remaining_330)
  have ns1: "n_samples ?fh3 (Suc 0) (take sizeof_XTFPingChanHeader (chan_header_bytes 6)) = Inr 6"
    by (simp add: n_samples_def NumSamples_chan_header_bytes sizeof_XTFPingChanHeader_def)
  have gt1: "int (6 * BytesPerSample (three_descriptors ! Suc 0))
          > int (NumBytesThisRecord (ping_header_bytes 0 2 330)) - int sizeof_XTFPingHeader
            - int sizeof_XTFPingChanHeader"
    by (simp add: three_descriptors_fields ping_header_bytes_fields sizeof_XTFPingHeader_def
        sizeof_XTFPingChanHeader_def)
  have hyp1: "sizeof_XTFPingHeader \<le> length ?r1
      \<and> HeaderType (take sizeof_XTFPingHeader ?r1) = sonar
      \<and> Suc 0 < NumChansToFollow (take sizeof_XTFPingHeader ?r1)
      \<and> sonar_channels ?fh3 (take sizeof_XTFPingHeader ?r1) 0 (Suc 0)
            (Stream (drop sizeof_XTFPingHeader ?r1)) [] []
          = Inr ([chan_header_bytes 0], [[2, 3, 4]], Stream (chan_header_bytes 6))
      \<and> sonar_info ?fh3 = Some three_descriptors \<and> Suc 0 < length three_descriptors
      \<and> sizeof_XTFPingChanHeader \<le> length (chan_header_bytes 6)
      \<and> n_samples ?fh3 (Suc 0) (take sizeof_XTFPingChanHeader (chan_header_bytes 6)) = Inr 6
      \<and> int (6 * BytesPerSample (three_descriptors ! Suc 0))
          > int (NumBytesThisRecord (take sizeof_XTFPingHeader ?r1)) - int sizeof_XTFPingHeader
            - int sizeof_XTFPingChanHeader"
    unfolding tk1 dr1 using len1 before ns1 gt1
    by (simp add: ping_header_bytes_fields sonar_def three_descriptors_fields
        sizeof_XTFPingChanHeader_def)
  note inst = sonar_bytes_check [where fh = ?fh and chans = "[chan_info_bytes 2 2 3]" and i = 0
      and s = "chan_header_bytes 5" and n = 5 and ph = "ping_header_bytes 0 1 325"
      and r = ?r0 and j = 0 and fh' = ?fh and hs = "[]" and ds = "[]"
      and u = "chan_header_bytes 5" and chans' = "[chan_info_bytes 2 2 3]" and m = 5
      and t = ?t and file_header = "Some ?fh" and p = ?p and b = "Stream [9, 9]"]
  note inst1 = sonar_bytes_check [where r = ?r1 and j = "Suc 0" and fh' = ?fh3
      and hs = "[chan_header_bytes 0]" and ds = "[[2, 3, 4]]"
      and u = "chan_header_bytes 6" and chans' = three_descriptors and m = 6]
  from inst [THEN conjunct1, THEN mp, OF hyp]
  have a: "sonar_channel ?fh (ping_header_bytes 0 1 325) 0
     (Stream (chan_header_bytes 5)) = Inl CorruptRecord" .
  from inst [THEN conjunct2, THEN conjunct1, THEN mp, OF hyp0]
  have r0: "XTFPingHeader_call (Stream ?r0) (Some ?fh) = Inl CorruptRecord" .
  from inst1 [THEN conjunct2, THEN conjunct1, THEN mp, OF hyp1]
  have r1: "XTFPingHeader_call (Stream ?r1) (Some ?fh3) = Inl CorruptRecord" .
  from inst [THEN conjunct2, THEN conjunct2, THEN mp, OF conjI [OF call ty]]
  obtain t' where "Stream [9, 9] = Stream t'"
    and "NumChansToFollow (ph_bytes ?p) = 1 \<longrightarrow>
           length ?t - length t' \<le> NumBytesThisRecord (ph_bytes ?p)"
    by (elim exE conjE)
  then have b: "length ?t - length [9, 9 :: byte] \<le> NumBytesThisRecord (ping_header_bytes 0 1 330)"
    using k by simp
  from a r0 r1 call b show ?thesis by (intro conjI)
qed

subsection \<open>Processed bathymetry\<close>

lemma ping_call_xyza:
  assumes "length hdr = sizeof_XTFPingHeader" and "HeaderType hdr = bathy_xyza"
    and "MagicNumber hdr = 0xFACE"
    and "sizeof_XTFPingHeader < NumBytesThisRecord hdr"
    and "NumBytesThisRecord hdr - sizeof_XTFPingHeader \<le> length rest"
  shows "XTFPingHeader_call (Stream (hdr @ rest)) (Some fh) =
           Inr (\<lparr>ph_bytes = hdr, ping_chan_headers = [],
                 data = BeamArray
                   (map (\<lambda>k. take sizeof_XTFBeamXYZA (drop (sizeof_XTFBeamXYZA * k)
                            (take (NumBytesThisRecord hdr - sizeof_XTFPingHeader) rest)))
                      [0..<(NumBytesThisRecord hdr - sizeof_XTFPingHeader) div sizeof_XTFBeamXYZA])\<rparr>,
                Stream (drop (NumBytesThisRecord hdr - sizeof_XTFPingHeader) rest))"
proof -
  define n where "n = NumBytesThisRecord hdr - sizeof_XTFPingHeader"
  have n: "int (NumBytesThisRecord hdr) - int sizeof_XTFPingHeader = int n" "0 < n"
    using assms(4) by (simp_all add: n_def)
  have len: "sizeof_XTFPingHeader \<le> length (hdr @ rest)"
    using assms(1) by simp
  have tk: "take sizeof_XTFPingHeader (hdr @ rest) = hdr"
    and dr: "drop sizeof_XTFPingHeader (hdr @ rest) = rest"
    using assms(1) by simp_all
  have rd: "read (Stream rest) (int n) = Inr (take n rest, Stream (drop n rest))"
    by simp
  have ne: "take n rest \<noteq> []"
    using n(2) assms(5) by (auto simp: n_def)
  have dv: "int n div int sizeof_XTFBeamXYZA = int (n div sizeof_XTFBeamXYZA)"
    by (simp add: zdiv_int)
  have ar: "xyza_array (int (n div sizeof_XTFBeamXYZA)) (take n rest) =
      Inr (map (\<lambda>k. take sizeof_XTFBeamXYZA (drop (sizeof_XTFBeamXYZA * k) (take n rest)))
             [0..<n div sizeof_XTFBeamXYZA])"
  proof -
    have "sizeof_XTFBeamXYZA * (n div sizeof_XTFBeamXYZA) \<le> n"
      by simp
    then show ?thesis
      using assms(5) by (simp add: xyza_array_def n_def [symmetric] not_less)
  qed
  have ty: "HeaderType hdr \<noteq> sonar" "HeaderType hdr \<in> set bathy_header_types"
    using assms(2) by (simp_all add: sonar_def bathy_xyza_def bathy_header_types_def)
  have new: "XTFPingHeader_new (Stream (hdr @ rest)) (Some fh) =
      Inr (\<lparr>ph_bytes = hdr, ping_chan_headers = [],
            data = BeamArray
              (map (\<lambda>k. take sizeof_XTFBeamXYZA (drop (sizeof_XTFBeamXYZA * k) (take n rest)))
                 [0..<n div sizeof_XTFBeamXYZA])\<rparr>, Stream (drop n rest))"
    unfolding XTFPingHeader_new_def ping_header_stream [OF len] tk dr
    using ty assms(2) ne by (simp add: n(1) dv rd ar del: read.simps)
  show ?thesis
    unfolding XTFPingHeader_call_def new n_def [symmetric]
    using assms(3) by (simp add: XTFPingHeader_init_def XTFPacketStart_init_def)
qed

lemma xyza_block_32:
  "NumBytesThisRecord (ping_header_bytes 17 0 288) - sizeof_XTFPingHeader = 32"
  by (simp add: ping_header_bytes_fields sizeof_XTFPingHeader_def)

lemma xyza_block_64:
  "NumBytesThisRecord (ping_header_bytes 17 0 320) - sizeof_XTFPingHeader = 64"
  by (simp add: ping_header_bytes_fields sizeof_XTFPingHeader_def)

lemma xyza_block_64_beams:
  "map (\<lambda>k. take sizeof_XTFBeamXYZA (drop (sizeof_XTFBeamXYZA * k)
          (take 64 (replicate 31 7 @ replicate 31 8 @ [5, 6, 9 :: byte]))))
     [0..<64 div sizeof_XTFBeamXYZA] = [replicate 31 7, replicate 31 8]"
  by code_simp

text \<open>
  Claim C3, as the code has it. The number of beam records is \<open>n_bytes //
  sizeof(XTFBeamXYZA)\<close>, and \<open>from_buffer_copy\<close> accepts a buffer longer than the
  array. This \<open>bathy_xyza\<close> record has a payload block of 32 bytes, one more than a beam
  record: it decodes to one beam record, and no error is raised.
\<close>

theorem xyza_remainder_counterexample:
  "(NumBytesThisRecord (ping_header_bytes 17 0 288) - sizeof_XTFPingHeader)
      mod sizeof_XTFBeamXYZA = 1
   \<and> XTFPingHeader_call (Stream (ping_header_bytes 17 0 288 @ replicate 32 7))
        (Some (file_header_with [])) =
       Inr (\<lparr>ph_bytes = ping_header_bytes 17 0 288, ping_chan_headers = [],
             data = BeamArray [replicate 31 7]\<rparr>, Stream [])"
proof
  show "(NumBytesThisRecord (ping_header_bytes 17 0 288) - sizeof_XTFPingHeader)
      mod sizeof_XTFBeamXYZA = 1"
    unfolding xyza_block_32 by (simp add: sizeof_XTFBeamXYZA_def)
  have "XTFPingHeader_call (Stream (ping_header_bytes 17 0 288 @ replicate 32 7))
        (Some (file_header_with [])) =
     Inr (\<lparr>ph_bytes = ping_header_bytes 17 0 288, ping_chan_headers = [],
           data = BeamArray
             (map (\<lambda>k. take sizeof_XTFBeamXYZA (drop (sizeof_XTFBeamXYZA * k)
                      (take (NumBytesThisRecord (ping_header_bytes 17 0 288)
                             - sizeof_XTFPingHeader) (replicate 32 7))))
                [0..<(NumBytesThisRecord (ping_header_bytes 17 0 288) - sizeof_XTFPingHeader)
                       div sizeof_XTFBeamXYZA])\<rparr>,
          Stream (drop (NumBytesThisRecord (ping_header_bytes 17 0 288) - sizeof_XTFPingHeader)
                    (replicate 32 7)))"
    by (rule ping_call_xyza)
       (simp_all add: ping_header_bytes_fields sizeof_XTFPingHeader_def bathy_xyza_def)
  then show "XTFPingHeader_call (Stream (ping_header_bytes 17 0 288 @ replicate 32 7))
        (Some (file_header_with [])) =
       Inr (\<lparr>ph_bytes = ping_header_bytes 17 0 288, ping_chan_headers = [],
             data = BeamArray [replicate 31 7]\<rparr>, Stream [])"
    unfolding xyza_block_32 by (simp add: sizeof_XTFBeamXYZA_def)
qed

text \<open>
  Claim C3, amended. For a record with header type \<open>bathy_xyza\<close> whose payload block
  of \<open>NumBytesThisRecord - sizeof(XTFPingHeader)\<close> bytes (at least one) is all in the
  stream, the block is read whole and decodes to \<open>(NumBytesThisRecord -
  sizeof(XTFPingHeader)) // 31\<close> beam records of 31 bytes taken from its front; bytes
  of the block that do not fill a beam record are left out, and no error is raised for
  them.
\<close>

theorem bathy_xyza_beams:
  assumes "length hdr = sizeof_XTFPingHeader" and "HeaderType hdr = bathy_xyza"
    and "MagicNumber hdr = 0xFACE"
    and "sizeof_XTFPingHeader < NumBytesThisRecord hdr"
    and "NumBytesThisRecord hdr - sizeof_XTFPingHeader \<le> length rest"
  shows "XTFPingHeader_call (Stream (hdr @ rest)) (Some fh) =
           Inr (\<lparr>ph_bytes = hdr, ping_chan_headers = [],
                 data = BeamArray
                   (map (\<lambda>k. take sizeof_XTFBeamXYZA (drop (sizeof_XTFBeamXYZA * k)
                            (take (NumBytesThisRecord hdr - sizeof_XTFPingHeader) rest)))
                      [0..<(NumBytesThisRecord hdr - sizeof_XTFPingHeader) div sizeof_XTFBeamXYZA])\<rparr>,
                Stream (drop (NumBytesThisRecord hdr - sizeof_XTFPingHeader) rest))"
  using assms by (rule ping_call_xyza)

theorem bathy_xyza_beams_witness:
  "XTFPingHeader_call
     (Stream (ping_header_bytes 17 0 320 @ replicate 31 7 @ replicate 31 8 @ [5, 6, 9]))
     (Some (file_header_with [])) =
   Inr (\<lparr>ph_bytes = ping_header_bytes 17 0 320, ping_chan_headers = [],
         data = BeamArray [replicate 31 7, replicate 31 8]\<rparr>, Stream [9])"
  using bathy_xyza_beams [of "ping_header_bytes 17 0 320"
      "replicate 31 7 @ replicate 31 8 @ [5, 6, 9]" "file_header_with []"]
  unfolding xyza_block_64 xyza_block_64_beams
  by (simp add: ping_header_bytes_fields sizeof_XTFPingHeader_def bathy_xyza_def)

subsection \<open>Time stamps\<close>

lemma is_leap_leap_year: "is_leap y = leap_year y"
proof (cases "y mod 400 = 0")
  case True
  then have "y mod 4 = 0"
    using mod_mod_cancel [of 4 400 y] by simp
  with True show ?thesis
    unfolding is_leap_def leap_year_def by simp
next
  case False
  then show ?thesis
    unfolding is_leap_def leap_year_def by simp
qed

lemma days_before_year_nat:
  assumes "1 \<le> y"
  shows "days_before_year (int y) =
     int ((y - 1) * 365 + (y - 1) div 4 + (y - 1) div 400) - int ((y - 1) div 100)"
proof -
  have eq: "int y - 1 = int (y - 1)" using assms by simp
  show ?thesis
    unfolding days_before_year_def Let_def eq
    by (simp only: zdiv_int of_nat_add of_nat_mult of_nat_numeral)
qed

lemma year_step:
  fixes n :: nat
  shows "int (Suc n * 365 + Suc n div 4 + Suc n div 400) - int (Suc n div 100) =
         int (n * 365 + n div 4 + n div 400) - int (n div 100) + int (year_length (Suc n))"
proof -
  have d4: "Suc n div 4 = n div 4 + (if Suc n mod 4 = 0 then 1 else 0)"
    and d100: "Suc n div 100 = n div 100 + (if Suc n mod 100 = 0 then 1 else 0)"
    and d400: "Suc n div 400 = n div 400 + (if Suc n mod 400 = 0 then 1 else 0)"
    by (simp_all add: div_Suc)
  have i1: "Suc n mod 400 = 0 \<Longrightarrow> Suc n mod 100 = 0"
    using mod_mod_cancel [of 100 400 "Suc n"] by simp
  have i2: "Suc n mod 100 = 0 \<Longrightarrow> Suc n mod 4 = 0"
    using mod_mod_cancel [of 4 100 "Suc n"] by simp
  show ?thesis
    unfolding d4 d100 d400 year_length_def leap_year_def
    using i1 i2 by auto
qed

lemma days_before_year_Suc:
  assumes "1 \<le> y"
  shows "days_before_year (int (Suc y)) = days_before_year (int y) + int (year_length y)"
proof -
  from assms obtain n where n: "y = Suc n" by (cases y) simp_all
  have a: "days_before_year (int (Suc (Suc n))) =
      int (Suc n * 365 + Suc n div 4 + Suc n div 400) - int (Suc n div 100)"
    using days_before_year_nat [of "Suc (Suc n)"] by simp
  have b: "days_before_year (int (Suc n)) =
      int (n * 365 + n div 4 + n div 400) - int (n div 100)"
    using days_before_year_nat [of "Suc n"] by simp
  show ?thesis
    unfolding n a b by (rule year_step)
qed

lemma sum_years:
  "1 \<le> y \<Longrightarrow> int (sum_list (map year_length [1..<y])) = days_before_year (int y)"
proof (induction y)
  case 0
  then show ?case by simp
next
  case (Suc y)
  show ?case
  proof (cases "y = 0")
    case True
    then show ?thesis by (simp add: days_before_year_def)
  next
    case False
    then have y: "1 \<le> y" by simp
    then have "[1..<Suc y] = [1..<y] @ [y]" by simp
    then have "int (sum_list (map year_length [1..<Suc y])) =
        int (sum_list (map year_length [1..<y])) + int (year_length y)"
      by simp
    then show ?thesis
      unfolding Suc.IH [OF y] days_before_year_Suc [OF y] .
  qed
qed

lemma month_cases:
  assumes "1 \<le> mo" and "mo \<le> 12"
  shows "mo = 1 \<or> mo = 2 \<or> mo = 3 \<or> mo = 4 \<or> mo = 5 \<or> mo = 6 \<or> mo = 7 \<or> mo = 8
         \<or> mo = 9 \<or> mo = 10 \<or> mo = 11 \<or> mo = (12 :: nat)"
  using assms by arith

lemma upt_months:
  "[Suc 0..<2] = [Suc 0]"
  "[Suc 0..<3] = [Suc 0, 2]"
  "[Suc 0..<4] = [Suc 0, 2, 3]"
  "[Suc 0..<5] = [Suc 0, 2, 3, 4]"
  "[Suc 0..<6] = [Suc 0, 2, 3, 4, 5]"
  "[Suc 0..<7] = [Suc 0, 2, 3, 4, 5, 6]"
  "[Suc 0..<8] = [Suc 0, 2, 3, 4, 5, 6, 7]"
  "[Suc 0..<9] = [Suc 0, 2, 3, 4, 5, 6, 7, 8]"
  "[Suc 0..<10] = [Suc 0, 2, 3, 4, 5, 6, 7, 8, 9]"
  "[Suc 0..<11] = [Suc 0, 2, 3, 4, 5, 6, 7, 8, 9, 10]"
  "[Suc 0..<12] = [Suc 0, 2, 3, 4, 5, 6, 7, 8, 9, 10, 11]"
  by code_simp+

lemma sum_months:
  assumes "1 \<le> mo" and "mo \<le> 12"
  shows "sum_list (map (month_length y) [1..<mo]) = days_before_month y mo"
  using month_cases [OF assms]
  by (elim disjE)
     (simp_all add: days_before_month_def month_length_def is_leap_leap_year upt_months)

lemma month_length_days_in_month:
  assumes "1 \<le> mo" and "mo \<le> 12"
  shows "days_in_month y mo = month_length y mo"
  using month_cases [OF assms]
  by (elim disjE) (simp_all add: days_in_month_def month_length_def is_leap_leap_year)

lemma date_ok:
  assumes "1 \<le> y" and "y \<le> 9999" and "1 \<le> mo" and "mo \<le> 12"
    and "1 \<le> d" and "d \<le> month_length y mo"
  shows "date y mo d = Inr (days_before_year (int y) + int (days_before_month y mo) + int d)"
  using assms by (simp add: date_def month_length_days_in_month)

lemma date_jan1:
  assumes "1 \<le> y" and "y \<le> 9999"
  shows "date y (Suc 0) (Suc 0) = Inr (days_before_year (int y) + 1)"
  using assms by (simp add: date_def days_in_month_def days_before_month_def)

lemma days_before_1970: "days_before_year 1970 = 719162"
  by (simp add: days_before_year_def)

lemma days_since_year_one_closed:
  assumes "1 \<le> y" and "1 \<le> mo" and "mo \<le> 12" and "1 \<le> d"
  shows "int (days_since_year_one y mo d) =
           days_before_year (int y) + int (days_before_month y mo) + int d - 1"
proof -
  have "int (days_since_year_one y mo d) =
      int (sum_list (map year_length [1..<y])) + int (sum_list (map (month_length y) [1..<mo]))
      + int (d - 1)"
    unfolding days_since_year_one_def by (simp only: of_nat_add)
  also have "\<dots> = days_before_year (int y) + int (days_before_month y mo) + int (d - 1)"
    unfolding sum_years [OF assms(1)] sum_months [OF assms(2,3)] ..
  also have "int (d - 1) = int d - 1"
    using assms(4) by simp
  finally show ?thesis by simp
qed

lemma epoch_days: "int (days_since_year_one 1970 1 1) = 719162"
  using days_since_year_one_closed [of 1970 1 1]
  by (simp add: days_before_1970 days_before_month_def)

lemma calendar_seconds_closed:
  assumes "1 \<le> y" and "1 \<le> mo" and "mo \<le> 12" and "1 \<le> d"
  shows "calendar_seconds y mo d hh mi ss =
           (days_before_year (int y) + int (days_before_month y mo) + int d - 1 - 719162) * 86400
           + int hh * 3600 + int mi * 60 + int ss"
  unfolding calendar_seconds_def days_since_year_one_closed [OF assms] epoch_days ..

lemma add_year_days:
  "datetime64_add \<lparr>dt_count = int y - 1970, dt_unit = Unit_Y\<rparr> (n, Unit_D) =
     \<lparr>dt_count = days_before_year (int y) - 719162 + n, dt_unit = Unit_D\<rparr>"
  by (simp add: datetime64_add_def to_unit_def year_start_days_def days_before_1970)

lemma add_units:
  "datetime64_add \<lparr>dt_count = c, dt_unit = Unit_D\<rparr> (n, Unit_h) =
     \<lparr>dt_count = c * 24 + n, dt_unit = Unit_h\<rparr>"
  "datetime64_add \<lparr>dt_count = c, dt_unit = Unit_h\<rparr> (n, Unit_m) =
     \<lparr>dt_count = c * 60 + n, dt_unit = Unit_m\<rparr>"
  "datetime64_add \<lparr>dt_count = c, dt_unit = Unit_m\<rparr> (n, Unit_s) =
     \<lparr>dt_count = c * 60 + n, dt_unit = Unit_s\<rparr>"
  "datetime64_add \<lparr>dt_count = c, dt_unit = Unit_s\<rparr> (n, Unit_ms) =
     \<lparr>dt_count = c * 1000 + n, dt_unit = Unit_ms\<rparr>"
  "datetime64_add \<lparr>dt_count = c, dt_unit = Unit_s\<rparr> (n, Unit_us) =
     \<lparr>dt_count = c * 1000000 + n, dt_unit = Unit_us\<rparr>"
  "datetime64_add \<lparr>dt_count = c, dt_unit = Unit_ms\<rparr> (n, Unit_us) =
     \<lparr>dt_count = c * 1000 + n, dt_unit = Unit_us\<rparr>"
  by (simp_all add: datetime64_add_def to_unit_def)

lemma get_time_epoch:
  assumes "SourceEpoch self = Some epoch" and "epoch \<noteq> 0"
    and "EpochMicroseconds self = None \<or> EpochMicroseconds self = Some 0"
  shows "get_time self = Inr \<lparr>dt_count = int epoch, dt_unit = Unit_s\<rparr>"
  using assms
  by (auto simp: get_time_def hasattr_and_nonzero_def attr_def bind_err_def)

lemma get_time_calendar:
  assumes "\<not> hasattr_and_nonzero (SourceEpoch self)"
    and "Year self = Some y" and "Month self = Some mo" and "Day self = Some d"
    and "Hour self = Some hh" and "Minute self = Some mi" and "Second self = Some ss"
    and "1 \<le> y" and "y \<le> 9999" and "1 \<le> mo" and "mo \<le> 12"
    and "1 \<le> d" and "d \<le> month_length y mo"
    and "Millisecond self = None \<or> Microsecond self = None"
  shows "get_time self =
           Inr (calendar_time (calendar_seconds y mo d hh mi ss)
                  (HSeconds self) (Millisecond self) (Microsecond self))"
proof -
  note facts = get_time_def assms(2-7) attr_def bind_err_def date_ok [OF assms(8-13)]
    date_jan1 [OF assms(8,9)] Let_def add_year_days add_units calendar_time_def
    calendar_seconds_closed [OF assms(8,10,11,12)]
  show ?thesis
  proof (cases "HSeconds self")
    case (Some hs)
    with assms(1) show ?thesis
      by (simp add: facts algebra_simps)
  next
    case None
    note hs = this
    show ?thesis
    proof (cases "Millisecond self")
      case (Some ms)
      with assms(14) have "Microsecond self = None" by simp
      with assms(1) hs Some show ?thesis
        by (simp add: facts algebra_simps)
    next
      case None
      note ms = this
      show ?thesis
      proof (cases "Microsecond self")
        case (Some us)
        with assms(1) hs ms show ?thesis
          by (simp add: facts algebra_simps)
      next
        case None
        with assms(1) hs ms show ?thesis
          by (simp add: facts algebra_simps)
      qed
    qed
  qed
qed

lemma fields_one_subsecond:
  "Millisecond (fields cls raw) = None \<or> Microsecond (fields cls raw) = None"
  by (cases cls) (simp_all add: calendar_at_def)

text \<open>
  Claim C8. For a packet of any class of \<open>XTFPacketClasses\<close> whose \<open>SourceEpoch\<close> is
  absent or zero and whose year, month and day are a date of the proleptic Gregorian
  calendar (the one \<open>datetime.date\<close> accepts), \<open>get_time\<close> returns the calendar time
  built from year, month, day, hour, minute and second, with every year and month counted
  at its Gregorian length, plus the sub-second part of one field: hundredths of a second
  (times 10 ms) if the class has them, else milliseconds, else microseconds. The year
  string is taken to parse as the year it spells.
\<close>

theorem get_time_calendar_fields:
  assumes "\<not> hasattr_and_nonzero (SourceEpoch (fields cls raw))"
    and "Year (fields cls raw) = Some y" and "Month (fields cls raw) = Some mo"
    and "Day (fields cls raw) = Some d" and "Hour (fields cls raw) = Some hh"
    and "Minute (fields cls raw) = Some mi" and "Second (fields cls raw) = Some ss"
    and "1 \<le> y" and "y \<le> 9999" and "1 \<le> mo" and "mo \<le> 12"
    and "1 \<le> d" and "d \<le> month_length y mo"
  shows "get_time (fields cls raw) =
           Inr (calendar_time (calendar_seconds y mo d hh mi ss)
                  (HSeconds (fields cls raw)) (Millisecond (fields cls raw))
                  (Microsecond (fields cls raw)))"
  using assms fields_one_subsecond [of cls raw] by (rule get_time_calendar)

text \<open>
  A ping header with year 2020, month 3, day 1, time 00:00:00 and 50 hundredths of a
  second resolves to 1583020800500 ms after 1970-01-01T00:00, which is
  2020-03-01T00:00:00.500.
\<close>

lemma ping_2020_fields:
  "fields PingHeader
     ([0xCE, 0xFA, 0, 0, 0, 0, 0, 0, 0, 0, 0, 1, 0, 0, 0xE4, 0x07, 3, 1, 0, 0, 0, 50]
      @ replicate 234 0) =
   \<lparr>SourceEpoch = None, EpochMicroseconds = None, Year = Some 2020, Month = Some 3,
    Day = Some 1, Hour = Some 0, Minute = Some 0, Second = Some 0, HSeconds = Some 50,
    Millisecond = None, Microsecond = None\<rparr>"
  by (simp add: calendar_at_def u16at_def u8at_def)

lemma seconds_2020_03_01: "calendar_seconds 2020 3 1 0 0 0 = 1583020800"
  by (simp add: calendar_seconds_closed days_before_year_def days_before_month_def is_leap_def)

theorem get_time_calendar_fields_witness:
  "get_time (fields PingHeader
     ([0xCE, 0xFA, 0, 0, 0, 0, 0, 0, 0, 0, 0, 1, 0, 0, 0xE4, 0x07, 3, 1, 0, 0, 0, 50]
      @ replicate 234 0)) =
   Inr \<lparr>dt_count = 1583020800500, dt_unit = Unit_ms\<rparr>"
  using get_time_calendar_fields [of PingHeader
      "[0xCE, 0xFA, 0, 0, 0, 0, 0, 0, 0, 0, 0, 1, 0, 0, 0xE4, 0x07, 3, 1, 0, 0, 0, 50]
       @ replicate 234 0" 2020 3 1 0 0 0]
  unfolding ping_2020_fields seconds_2020_03_01
  by (simp add: hasattr_and_nonzero_def month_length_def calendar_time_def)

text \<open>
  Claim C9. For a packet whose \<open>SourceEpoch\<close> is present and not zero and whose
  \<open>EpochMicroseconds\<close> is absent or zero, \<open>get_time\<close> returns the epoch seconds, in
  the unit of seconds, whatever the packet's \<open>Millisecond\<close>, \<open>Microsecond\<close>,
  \<open>HSeconds\<close> and calendar fields are: the statement holds for every value of them.
\<close>

theorem get_time_source_epoch:
  assumes "SourceEpoch self = Some epoch" and "epoch \<noteq> 0"
    and "EpochMicroseconds self = None \<or> EpochMicroseconds self = Some 0"
  shows "get_time self = Inr \<lparr>dt_count = int epoch, dt_unit = Unit_s\<rparr>"
  using assms by (rule get_time_epoch)

text \<open>
  A navigation header with \<open>SourceEpoch = 1583020800\<close>, \<open>Microsecond = 123456\<close> and
  calendar fields that are no date at all.
\<close>

lemma navigation_fields:
  "fields HeaderNavigation
     (replicate 21 0 @ [0x40, 0xE2, 0x01, 0x00] @ [0x00, 0xFB, 0x5A, 0x5E] @ replicate 35 0) =
   \<lparr>SourceEpoch = Some 1583020800, EpochMicroseconds = None, Year = Some 0, Month = Some 0,
    Day = Some 0, Hour = Some 0, Minute = Some 0, Second = Some 0, HSeconds = None,
    Millisecond = None, Microsecond = Some 123456\<rparr>"
  by (simp add: calendar_at_def u32at_def u16at_def u8at_def nth_append)

theorem get_time_source_epoch_witness:
  "get_time (fields HeaderNavigation
     (replicate 21 0 @ [0x40, 0xE2, 0x01, 0x00] @ [0x00, 0xFB, 0x5A, 0x5E] @ replicate 35 0)) =
   Inr \<lparr>dt_count = 1583020800, dt_unit = Unit_s\<rparr>"
  using get_time_source_epoch [of "fields HeaderNavigation
     (replicate 21 0 @ [0x40, 0xE2, 0x01, 0x00] @ [0x00, 0xFB, 0x5A, 0x5E] @ replicate 35 0)"
     1583020800]
  unfolding navigation_fields by simp

end
